theory Spec2Isabelle
  imports Main
begin

section \<open>The event logger of client/web/src/tracking/eventLogger.ts\<close>

text \<open>
  The logger is a class with mutable fields that reads and writes the browser's cookies,
  the local storage, the address bar and two outgoing calls of the server-admin wrapper.
  The model is one record holding the fields of the class next to the part of the browser
  the class touches, and every method is a function from states to states (with a result
  where the method returns one). Each call that leaves the class is appended to
  \<open>trace\<close>, in the order the source makes it, so that "reads", "writes", "notifies"
  and "forwards" are statements about the trace.

  Conventions.
  \<^item> A JavaScript \<open>string | undefined\<close> (or \<open>| null\<close>) is a \<open>string option\<close>;
    \<open>truthy\<close> is JavaScript's truthiness on it: defined and not the empty string.
  \<^item> A listener is a callback the logger does not own. It is modelled by its identity
    (a number): calling it is recorded in the trace, and it is taken to return normally
    and to leave the logger and the stores alone.
  \<^item> \<open>serverAdmin.trackAction\<close>, \<open>serverAdmin.trackPageView\<close> and \<open>logger.debug\<close>
    are outside the file; a call is recorded in the trace and has no other effect.
  \<^item> Event properties (\<open>any\<close> in the source) are lists of keys with optional values.
\<close>

subsection \<open>Values\<close>

type_synonym props = "(string \<times> string option) list"

record URL =
  origin_path :: string
  searchParams :: "(string \<times> string) list"

datatype effect =
    CookieGet string
  | CookieSet string string int
  | LocalStorageGet string
  | LocalStorageRemove string
  | ListenerCall nat string
  | TrackAction string "props option" "props option"
  | TrackPageView string bool "props option"
  | ConsoleDebug string "props option" "props option"
  | ReplaceState URL

definition truthy :: "string option \<Rightarrow> bool" where
  "truthy v = (case v of None \<Rightarrow> False | Some x \<Rightarrow> x \<noteq> [])"

definition str :: "string option \<Rightarrow> string" where
  "str v = (case v of None \<Rightarrow> [] | Some x \<Rightarrow> x)"

subsection \<open>The keys\<close>

definition ANONYMOUS_USER_ID_KEY :: string where "ANONYMOUS_USER_ID_KEY = ''sourcegraphAnonymousUid''"
definition COHORT_ID_KEY :: string where "COHORT_ID_KEY = ''sourcegraphCohortId''"
definition FIRST_SOURCE_URL_KEY :: string where "FIRST_SOURCE_URL_KEY = ''sourcegraphSourceUrl''"
definition LAST_SOURCE_URL_KEY :: string where "LAST_SOURCE_URL_KEY = ''sourcegraphRecentSourceUrl''"
definition DEVICE_ID_KEY :: string where "DEVICE_ID_KEY = ''sourcegraphDeviceId''"
definition DEVICE_SESSION_ID_KEY :: string where "DEVICE_SESSION_ID_KEY = ''sourcegraphSessionId''"
definition ORIGINAL_REFERRER_KEY :: string where "ORIGINAL_REFERRER_KEY = ''originalReferrer''"
definition MKTO_ORIGINAL_REFERRER_KEY :: string where "MKTO_ORIGINAL_REFERRER_KEY = ''_mkto_referrer''"
definition SESSION_REFERRER_KEY :: string where "SESSION_REFERRER_KEY = ''sessionReferrer''"
definition SESSION_FIRST_URL_KEY :: string where "SESSION_FIRST_URL_KEY = ''sessionFirstUrl''"

subsection \<open>The state: the fields of the class and the browser around it\<close>

text \<open>
  \<open>clock\<close> is \<open>Date.now()\<close> in milliseconds. A cookie is stored with the instant
  at which it expires and is visible to \<open>cookies.get\<close> before that instant.
  \<open>isSourcegraphDotComMode\<close> is the module constant read from \<open>window.context\<close>
  when the module loads; \<open>userAgentIsBot\<close> is \<open>window.context?.userAgentIsBot\<close>;
  \<open>isSecureContext\<close> is \<open>window.isSecureContext\<close>: whether the page is served over
  https (or from the local host), which decides whether the browser keeps a cookie that
  is written with \<open>secure: true\<close>.
\<close>

record state =
  hasStrippedQueryParameters :: bool
  anonymousUserID :: string
  cohortID :: "string option"
  firstSourceURL :: "string option"
  lastSourceURL :: "string option"
  deviceID :: string
  deviceSessionID :: "string option"
  eventID :: nat
  listeners :: "nat list"
  originalReferrer :: "string option"
  sessionReferrer :: "string option"
  sessionFirstURL :: "string option"
  cookie_jar :: "string \<Rightarrow> (string \<times> int) option"
  localStorage :: "string \<Rightarrow> string option"
  location :: URL
  referrer :: string
  clock :: int
  userAgentIsBot :: bool
  isSourcegraphDotComMode :: bool
  isSecureContext :: bool
  trace :: "effect list"

definition emit :: "effect \<Rightarrow> state \<Rightarrow> state" where
  "emit e s = s\<lparr>trace := trace s @ [e]\<rparr>"

subsection \<open>Cookies (js-cookie) and the local storage\<close>

text \<open>
  \<open>expires\<close> of the cookie attributes is a number of days: 365 for \<open>cookieSettings\<close>
  and 0.0208 for \<open>deviceSessionCookieSettings\<close>, here in milliseconds. js-cookie
  turns it into the date \<open>Date.now() + expires * 864e5\<close> and writes that date with
  \<open>toUTCString\<close>, which keeps whole seconds. Both settings have \<open>secure: true\<close>:
  the write is issued in any case, and the browser keeps the cookie only in a secure
  context; \<open>jar_after\<close> is the cookies of the browser after the write.
  \<open>sameSite\<close> and \<open>domain\<close> are the same in both settings and play no part
  here. A cookie is gone at the instant of its expiry.
\<close>

definition cookieSettings :: int where
  "cookieSettings = 365 * 86400000"

definition deviceSessionCookieSettings :: int where
  "deviceSessionCookieSettings = 1797120"

definition expiry :: "int \<Rightarrow> int \<Rightarrow> int" where
  "expiry now ttl = ((now + ttl) div 1000) * 1000"

definition live :: "int \<Rightarrow> (string \<times> int) option \<Rightarrow> string option" where
  "live now c = (case c of None \<Rightarrow> None | Some (v, e) \<Rightarrow> if now < e then Some v else None)"

definition cookie_value :: "state \<Rightarrow> string \<Rightarrow> string option" where
  "cookie_value s k = live (clock s) (cookie_jar s k)"

definition cookies_get :: "string \<Rightarrow> state \<Rightarrow> string option \<times> state" where
  "cookies_get k s = (cookie_value s k, emit (CookieGet k) s)"

definition jar_after :: "state \<Rightarrow> string \<Rightarrow> string \<Rightarrow> int \<Rightarrow> string \<Rightarrow> (string \<times> int) option" where
  "jar_after s k v ttl =
     (if isSecureContext s then (cookie_jar s)(k \<mapsto> (v, expiry (clock s) ttl)) else cookie_jar s)"

definition cookies_set :: "string \<Rightarrow> string \<Rightarrow> int \<Rightarrow> state \<Rightarrow> state" where
  "cookies_set k v ttl s =
     emit (CookieSet k v (expiry (clock s) ttl)) (s\<lparr>cookie_jar := jar_after s k v ttl\<rparr>)"

definition localStorage_getItem :: "string \<Rightarrow> state \<Rightarrow> string option \<times> state" where
  "localStorage_getItem k s = (localStorage s k, emit (LocalStorageGet k) s)"

definition localStorage_removeItem :: "string \<Rightarrow> state \<Rightarrow> state" where
  "localStorage_removeItem k s =
     emit (LocalStorageRemove k) (s\<lparr>localStorage := (localStorage s)(k := None)\<rparr>)"

subsection \<open>The three plain getters\<close>

definition getAnonymousUserID :: "state \<Rightarrow> string" where
  "getAnonymousUserID s = anonymousUserID s"

definition getCohortID :: "state \<Rightarrow> string option" where
  "getCohortID s = cohortID s"

definition getDeviceID :: "state \<Rightarrow> string" where
  "getDeviceID s = deviceID s"

subsection \<open>The device session and its renewal\<close>

text \<open>
  \<open>getDeviceSessionID\<close> reads the cookie first and the field second, falls back to the
  anonymous user id, and always writes the cookie again.
\<close>

definition getDeviceSessionID :: "state \<Rightarrow> string \<times> state" where
  "getDeviceSessionID s =
     (let (c, s1) = cookies_get DEVICE_SESSION_ID_KEY s;
          v = (if truthy c then c else deviceSessionID s1);
          v' = (if \<not> truthy v then getAnonymousUserID s1 else str v);
          s2 = cookies_set DEVICE_SESSION_ID_KEY v' deviceSessionCookieSettings s1
      in (v', s2\<lparr>deviceSessionID := Some v'\<rparr>))"

definition resetSessionCookieExpiration :: "state \<Rightarrow> bool \<times> state" where
  "resetSessionCookieExpiration s =
     (let (v, s1) = getDeviceSessionID s
      in if v = [] then (False, s1\<lparr>deviceSessionID := Some v\<rparr>) else (True, s1))"

subsection \<open>Emitting events\<close>

definition debugEventLoggingEnabled :: "state \<Rightarrow> bool \<times> state" where
  "debugEventLoggingEnabled s =
     (let (v, s1) = localStorage_getItem ''eventLogDebug'' s in (v = Some ''true'', s1))"

definition logToConsole :: "string \<Rightarrow> props option \<Rightarrow> props option \<Rightarrow> state \<Rightarrow> state" where
  "logToConsole eventLabel eventProperties publicArgument s =
     (let (d, s1) = debugEventLoggingEnabled s
      in if d then emit (ConsoleDebug eventLabel eventProperties publicArgument) s1 else s1)"

definition notify_listeners :: "string \<Rightarrow> state \<Rightarrow> state" where
  "notify_listeners eventLabel s =
     s\<lparr>trace := trace s @ map (\<lambda>l. ListenerCall l eventLabel) (listeners s)\<rparr>"

definition log :: "string \<Rightarrow> props option \<Rightarrow> props option \<Rightarrow> state \<Rightarrow> state" where
  "log eventLabel eventProperties publicArgument s =
     (let s1 = snd (resetSessionCookieExpiration s);
          s2 = notify_listeners eventLabel s1
      in if userAgentIsBot s2 \<or> eventLabel = [] then s2
         else logToConsole eventLabel eventProperties publicArgument
                (emit (TrackAction eventLabel eventProperties publicArgument) s2))"

subsection \<open>The attribution accessors\<close>

text \<open>
  Each returns the empty string and touches nothing outside
  \<open>sourcegraphDotComMode\<close>. Inside it, \<open>a || b || c\<close> evaluates from the left
  and stops at the first truthy operand, so a cookie is read only when the field is not
  truthy.
\<close>

fun query_string :: "(string \<times> string) list \<Rightarrow> string" where
  "query_string [] = []"
| "query_string [(k, v)] = k @ ''='' @ v"
| "query_string ((k, v) # p # ps) = k @ ''='' @ v @ ''&'' @ query_string (p # ps)"

definition location_href :: "state \<Rightarrow> string" where
  "location_href s =
     origin_path (location s) @
     (if searchParams (location s) = [] then [] else ''?'' @ query_string (searchParams (location s)))"

definition getFirstSourceURL :: "state \<Rightarrow> string \<times> state" where
  "getFirstSourceURL s =
     (if \<not> isSourcegraphDotComMode s then ([], s)
      else
        let (v, s1) =
              (if truthy (firstSourceURL s) then (str (firstSourceURL s), s)
               else let (c, s') = cookies_get FIRST_SOURCE_URL_KEY s
                    in if truthy c then (str c, s') else (location_href s', s'));
            s2 = s1\<lparr>firstSourceURL := Some v\<rparr>
        in (v, cookies_set FIRST_SOURCE_URL_KEY v cookieSettings s2))"

definition getLastSourceURL :: "state \<Rightarrow> string \<times> state" where
  "getLastSourceURL s =
     (if \<not> isSourcegraphDotComMode s then ([], s)
      else
        let (v, s1) =
              (if truthy (lastSourceURL s) then (str (lastSourceURL s), s)
               else let (c, s') = cookies_get LAST_SOURCE_URL_KEY s
                    in if truthy c then (str c, s') else (location_href s', s'));
            s2 = s1\<lparr>lastSourceURL := Some v\<rparr>
        in (v, cookies_set LAST_SOURCE_URL_KEY v cookieSettings s2))"

definition getOriginalReferrer :: "state \<Rightarrow> string \<times> state" where
  "getOriginalReferrer s =
     (if \<not> isSourcegraphDotComMode s then ([], s)
      else
        let (v, s1) =
              (if truthy (originalReferrer s) then (str (originalReferrer s), s)
               else let (c, s') = cookies_get ORIGINAL_REFERRER_KEY s
                    in if truthy c then (str c, s')
                       else let (m, s'') = cookies_get MKTO_ORIGINAL_REFERRER_KEY s'
                            in if truthy m then (str m, s'') else (referrer s'', s''));
            s2 = s1\<lparr>originalReferrer := Some v\<rparr>
        in (v, cookies_set ORIGINAL_REFERRER_KEY v cookieSettings s2))"

definition getSessionReferrer :: "state \<Rightarrow> string \<times> state" where
  "getSessionReferrer s =
     (if \<not> isSourcegraphDotComMode s then ([], s)
      else
        let (v, s1) =
              (if truthy (sessionReferrer s) then (str (sessionReferrer s), s)
               else let (c, s') = cookies_get SESSION_REFERRER_KEY s
                    in if truthy c then (str c, s') else (referrer s', s'));
            s2 = s1\<lparr>sessionReferrer := Some v\<rparr>
        in (v, cookies_set SESSION_REFERRER_KEY v deviceSessionCookieSettings s2))"

definition getSessionFirstURL :: "state \<Rightarrow> string \<times> state" where
  "getSessionFirstURL s =
     (if \<not> isSourcegraphDotComMode s then ([], s)
      else
        let (v, s1) =
              (if truthy (sessionFirstURL s) then (str (sessionFirstURL s), s)
               else let (c, s') = cookies_get SESSION_FIRST_URL_KEY s
                    in if truthy c then (str c, s') else (location_href s', s'));
            s2 = s1\<lparr>sessionFirstURL := Some v\<rparr>
        in (v, cookies_set SESSION_FIRST_URL_KEY v deviceSessionCookieSettings s2))"

definition getEventID :: "state \<Rightarrow> nat \<times> state" where
  "getEventID s = (eventID s + 1, s\<lparr>eventID := eventID s + 1\<rparr>)"

definition getReferrer :: "state \<Rightarrow> string" where
  "getReferrer s = (if isSourcegraphDotComMode s then referrer s else [])"

subsection \<open>Listeners\<close>

text \<open>\<open>listeners\<close> is a JavaScript \<open>Set\<close>: insertion order, no duplicates.\<close>

definition addEventLogListener :: "nat \<Rightarrow> state \<Rightarrow> state" where
  "addEventLogListener callback s =
     (if callback \<in> set (listeners s) then s
      else s\<lparr>listeners := listeners s @ [callback]\<rparr>)"

definition unsubscribe :: "nat \<Rightarrow> state \<Rightarrow> state" where
  "unsubscribe callback s = s\<lparr>listeners := removeAll callback (listeners s)\<rparr>"

subsection \<open>Query parameters of the page URL\<close>

text \<open>
  A URL is kept parsed: \<open>searchParams.get\<close> is the first value under a key,
  \<open>searchParams.has\<close> is membership among the keys.
\<close>

definition searchParams_get :: "URL \<Rightarrow> string \<Rightarrow> string option" where
  "searchParams_get u k = map_of (searchParams u) k"

definition searchParams_has :: "URL \<Rightarrow> string \<Rightarrow> bool" where
  "searchParams_has u k = (k \<in> set (map fst (searchParams u)))"

definition or_undefined :: "string option \<Rightarrow> string option" where
  "or_undefined v = (if truthy v then v else None)"

text \<open>
  The regular expression \<open>/^cloud-onboarding-email(.*)$/\<close> has no flags: \<open>.\<close> matches
  every character but a line terminator (LF, CR, U+2028, U+2029; the last two as their
  UTF-8 bytes here) and \<open>$\<close> matches at the end of the input only.
\<close>

fun has_line_terminator :: "string \<Rightarrow> bool" where
  "has_line_terminator [] = False"
| "has_line_terminator (c # cs) =
     (c = CHR 0x0A \<or> c = CHR 0x0D
      \<or> (c = CHR 0xE2 \<and> (take 2 cs = [CHR 0x80, CHR 0xA8] \<or> take 2 cs = [CHR 0x80, CHR 0xA9]))
      \<or> has_line_terminator cs)"

definition match_cloud_onboarding_email :: "string option \<Rightarrow> bool" where
  "match_cloud_onboarding_email utmCampaign =
     (case utmCampaign of
        None \<Rightarrow> False
      | Some c \<Rightarrow> take 22 c = ''cloud-onboarding-email'' \<and> \<not> has_line_terminator (drop 22 c))"

definition code_host_integrations :: "string list" where
  "code_host_integrations =
     [''safari-extension'', ''firefox-extension'', ''chrome-extension'',
      ''phabricator-integration'', ''bitbucket-integration'', ''gitlab-integration'']"

definition pageViewQueryParameters :: "URL \<Rightarrow> state \<Rightarrow> props \<times> state" where
  "pageViewQueryParameters parsedUrl s =
     (let utmSource = searchParams_get parsedUrl ''utm_source'';
          utmCampaign = searchParams_get parsedUrl ''utm_campaign'';
          utmMedium = searchParams_get parsedUrl ''utm_medium'';
          utmProps =
            [(''utm_campaign'', or_undefined utmCampaign),
             (''utm_source'', or_undefined utmSource),
             (''utm_medium'', or_undefined utmMedium),
             (''utm_term'', or_undefined (searchParams_get parsedUrl ''utm_term'')),
             (''utm_content'', or_undefined (searchParams_get parsedUrl ''utm_content''))]
      in (utmProps,
          if utmSource = Some ''saved-search-email'' then log ''SavedSearchEmailClicked'' None None s
          else if utmSource = Some ''saved-search-slack'' then log ''SavedSearchSlackClicked'' None None s
          else if utmSource = Some ''code-monitoring-email'' then log ''CodeMonitorEmailLinkClicked'' None None s
          else if utmSource = Some ''hubspot'' \<and> match_cloud_onboarding_email utmCampaign
            then log ''UTMCampaignLinkClicked'' (Some utmProps) (Some utmProps) s
          else if str utmSource \<in> set code_host_integrations
            then log ''UTMCodeHostIntegration'' (Some utmProps) (Some utmProps) s
          else if utmMedium = Some ''VSCODE'' \<and> utmCampaign = Some ''vsce-sign-up''
            then log ''VSCODESignUpLinkClicked'' (Some utmProps) (Some utmProps) s
          else s))"

text \<open>
  Modelled from the spec: \<open>stripURLParameters\<close> of \<open>./util\<close> is not among the source
  files. The spec has it strip the listed markers from the URL by a destructive,
  idempotent rewrite of the browser's navigation state, without a navigation.
\<close>

definition stripURLParameters :: "URL \<Rightarrow> string list \<Rightarrow> state \<Rightarrow> state" where
  "stripURLParameters url parametersToRemove s =
     (let u = url\<lparr>searchParams := filter (\<lambda>(k, v). k \<notin> set parametersToRemove) (searchParams url)\<rparr>
      in emit (ReplaceState u) (s\<lparr>location := u\<rparr>))"

definition handleQueryEvents :: "URL \<Rightarrow> state \<Rightarrow> state" where
  "handleQueryEvents parsedUrl s =
     (let s1 = (if searchParams_has parsedUrl ''signup''
                then let args = [(''serviceType'', Some (str (searchParams_get parsedUrl ''signup'')))]
                     in log ''web:auth:signUpCompleted'' (Some args) (Some args) s
                else s);
          s2 = (if searchParams_has parsedUrl ''signin''
                then let args = [(''serviceType'', Some (str (searchParams_get parsedUrl ''signin'')))]
                     in log ''web:auth:signInCompleted'' (Some args) (Some args) s1
                else s1)
      in stripURLParameters parsedUrl
           [''utm_campaign'', ''utm_source'', ''utm_medium'', ''signup'', ''signin''] s2)"

subsection \<open>Page views\<close>

definition logViewEventInternal :: "string \<Rightarrow> props option \<Rightarrow> bool \<Rightarrow> state \<Rightarrow> state" where
  "logViewEventInternal eventName eventProperties logAsActiveUser s =
     (let (props, s1) = pageViewQueryParameters (location s) s;
          s2 = emit (TrackPageView eventName logAsActiveUser eventProperties) s1;
          s3 = logToConsole eventName (Some props) None s2
      in if \<not> hasStrippedQueryParameters s3
         then (handleQueryEvents (location s3) s3)\<lparr>hasStrippedQueryParameters := True\<rparr>
         else s3)"

definition logViewEvent :: "string \<Rightarrow> props option \<Rightarrow> bool \<Rightarrow> state \<Rightarrow> state" where
  "logViewEvent pageTitle eventProperties logAsActiveUser s =
     (let s1 = snd (resetSessionCookieExpiration s)
      in if userAgentIsBot s1 \<or> pageTitle = [] then s1
         else logViewEventInternal (''View'' @ pageTitle) eventProperties logAsActiveUser s1)"

definition logPageView :: "string \<Rightarrow> props option \<Rightarrow> bool \<Rightarrow> state \<Rightarrow> state" where
  "logPageView eventName eventProperties logAsActiveUser s =
     (let s1 = snd (resetSessionCookieExpiration s)
      in if userAgentIsBot s1 \<or> eventName = [] then s1
         else logViewEventInternal (eventName @ ''Viewed'') eventProperties logAsActiveUser s1)"

subsection \<open>Initialisation\<close>

text \<open>
  Instants are milliseconds since 1970-01-01 00:00 UTC and days are counted from that
  day, a Thursday, so day \<open>d\<close> is a Monday when \<open>(d + 3) mod 7 = 0\<close>.
\<close>

definition day_of :: "int \<Rightarrow> int" where
  "day_of now = now div 86400000"

definition is_monday :: "int \<Rightarrow> bool" where
  "is_monday d = ((d + 3) mod 7 = 0)"

text \<open>
  Modelled from the spec: \<open>getPreviousMonday\<close> of \<open>./util\<close> is not among the source
  files. The spec has it give the label of the most recent Monday on or before the given
  instant, with date-only precision. \<open>previous_monday\<close> is that Monday as a day;
  \<open>fmt\<close> is the rendering of a day as a label, which the spec leaves open.
\<close>

definition previous_monday :: "int \<Rightarrow> int" where
  "previous_monday d = d - (d + 3) mod 7"

definition getPreviousMonday :: "(int \<Rightarrow> string) \<Rightarrow> int \<Rightarrow> string" where
  "getPreviousMonday fmt now = fmt (previous_monday (day_of now))"

text \<open>
  \<open>uuid\<close> is the value \<open>uuid.v4()\<close> returns when it is called. The three accessors at
  the end are called only when their cookie is not truthy.
\<close>

definition initializeLogParameters :: "string \<Rightarrow> (int \<Rightarrow> string) \<Rightarrow> state \<Rightarrow> state" where
  "initializeLogParameters uuid fmt s =
     (let (c, s1) = cookies_get ANONYMOUS_USER_ID_KEY s;
          (a, s2) = (if truthy c then (c, s1) else localStorage_getItem ANONYMOUS_USER_ID_KEY s1);
          (co, s3) = cookies_get COHORT_ID_KEY s2;
          s4 = s3\<lparr>deviceSessionID := Some []\<rparr>;
          (anonymousUserID', cohortID') =
             (if \<not> truthy a then (uuid, Some (getPreviousMonday fmt (clock s4))) else (str a, co));
          s5 = cookies_set ANONYMOUS_USER_ID_KEY anonymousUserID' cookieSettings s4;
          s6 = localStorage_removeItem ANONYMOUS_USER_ID_KEY s5;
          s7 = (if truthy cohortID' then cookies_set COHORT_ID_KEY (str cohortID') cookieSettings s6 else s6);
          (d, s8) = cookies_get DEVICE_ID_KEY s7;
          deviceID' = (if \<not> truthy d then anonymousUserID' else str d);
          s9 = cookies_set DEVICE_ID_KEY deviceID' cookieSettings s8;
          (ds, s10) = cookies_get DEVICE_SESSION_ID_KEY s9;
          ds' = (if truthy ds then ds else deviceSessionID s10);
          deviceSessionID' = (if \<not> truthy ds' then anonymousUserID' else str ds');
          s11 = cookies_set DEVICE_SESSION_ID_KEY deviceSessionID' deviceSessionCookieSettings s10;
          (r, s12) = cookies_get ORIGINAL_REFERRER_KEY s11;
          (originalReferrer', s13) = (if \<not> truthy r then getOriginalReferrer s12 else (str r, s12));
          (sr, s14) = cookies_get SESSION_REFERRER_KEY s13;
          (sessionReferrer', s15) = (if \<not> truthy sr then getSessionReferrer s14 else (str sr, s14));
          (sf, s16) = cookies_get SESSION_FIRST_URL_KEY s15;
          (sessionFirstURL', s17) = (if \<not> truthy sf then getSessionFirstURL s16 else (str sf, s16))
      in s17\<lparr>anonymousUserID := anonymousUserID',
              cohortID := cohortID',
              deviceID := deviceID',
              deviceSessionID := Some deviceSessionID',
              originalReferrer := Some originalReferrer',
              sessionReferrer := Some sessionReferrer',
              sessionFirstURL := Some sessionFirstURL'\<rparr>)"

text \<open>
  The constructor: the field initialisers of the class, then
  \<open>initializeLogParameters\<close>. (Its subscription to the presence stream is modelled
  with the stream, below.)
\<close>

definition field_initialisers :: "state \<Rightarrow> state" where
  "field_initialisers s =
     s\<lparr>hasStrippedQueryParameters := False,
       anonymousUserID := [],
       cohortID := None,
       firstSourceURL := None,
       lastSourceURL := None,
       deviceID := [],
       deviceSessionID := None,
       eventID := 0,
       listeners := [],
       originalReferrer := None,
       sessionReferrer := None,
       sessionFirstURL := None\<rparr>"

definition new_EventLogger :: "string \<Rightarrow> (int \<Rightarrow> string) \<Rightarrow> state \<Rightarrow> state" where
  "new_EventLogger uuid fmt s = initializeLogParameters uuid fmt (field_initialisers s)"

subsection \<open>Sequences of calls\<close>

text \<open>
  What the application can do with a constructed logger, one call after the other.
  \<open>Tick\<close> lets time pass between two calls, and \<open>Navigate\<close> is a client-side
  navigation: the address bar changes and the page, with its logger, stays.
\<close>

datatype call =
    Log string "props option" "props option"
  | LogPageView string "props option" bool
  | LogViewEvent string "props option" bool
  | GetFirstSourceURL
  | GetLastSourceURL
  | GetOriginalReferrer
  | GetSessionReferrer
  | GetSessionFirstURL
  | GetDeviceSessionID
  | GetEventID
  | AddEventLogListener nat
  | Unsubscribe nat
  | Tick nat
  | Navigate URL

fun perform :: "call \<Rightarrow> state \<Rightarrow> state" where
  "perform (Log l p q) s = log l p q s"
| "perform (LogPageView n p a) s = logPageView n p a s"
| "perform (LogViewEvent n p a) s = logViewEvent n p a s"
| "perform GetFirstSourceURL s = snd (getFirstSourceURL s)"
| "perform GetLastSourceURL s = snd (getLastSourceURL s)"
| "perform GetOriginalReferrer s = snd (getOriginalReferrer s)"
| "perform GetSessionReferrer s = snd (getSessionReferrer s)"
| "perform GetSessionFirstURL s = snd (getSessionFirstURL s)"
| "perform GetDeviceSessionID s = snd (getDeviceSessionID s)"
| "perform GetEventID s = snd (getEventID s)"
| "perform (AddEventLogListener l) s = addEventLogListener l s"
| "perform (Unsubscribe l) s = unsubscribe l s"
| "perform (Tick d) s = s\<lparr>clock := clock s + int d\<rparr>"
| "perform (Navigate u) s = s\<lparr>location := u\<rparr>"

fun run :: "call list \<Rightarrow> state \<Rightarrow> state" where
  "run [] s = s"
| "run (c # cs) s = run cs (perform c s)"

subsection \<open>Reading the trace\<close>

fun is_forward :: "effect \<Rightarrow> bool" where
  "is_forward (TrackAction l p q) = True"
| "is_forward (TrackPageView n a p) = True"
| "is_forward e = False"

fun is_store_access :: "effect \<Rightarrow> bool" where
  "is_store_access (CookieGet k) = True"
| "is_store_access (CookieSet k v e) = True"
| "is_store_access (LocalStorageGet k) = True"
| "is_store_access (LocalStorageRemove k) = True"
| "is_store_access e = False"

fun writes_cookie :: "string \<Rightarrow> effect \<Rightarrow> bool" where
  "writes_cookie k (CookieSet k' v e) = (k' = k)"
| "writes_cookie k e = False"

fun tracks :: "string \<Rightarrow> effect \<Rightarrow> bool" where
  "tracks l (TrackAction l' p q) = (l' = l)"
| "tracks l e = False"

text \<open>
  The value a renewal of the device session resolves to: the cookie if it is truthy,
  else the field if it is truthy, else the anonymous user id.
\<close>

definition resolved_session :: "state \<Rightarrow> string" where
  "resolved_session s =
     (if truthy (cookie_value s DEVICE_SESSION_ID_KEY) then str (cookie_value s DEVICE_SESSION_ID_KEY)
      else if truthy (deviceSessionID s) then str (deviceSessionID s)
      else anonymousUserID s)"


subsection \<open>Sample states\<close>

text \<open>
  A browser with no cookies and an empty local storage, and a logger in it whose
  identity is \<open>u-1\<close>.
\<close>

definition browser :: "bool \<Rightarrow> bool \<Rightarrow> (string \<times> string) list \<Rightarrow> state" where
  "browser isBot dotcom query =
     \<lparr>hasStrippedQueryParameters = False, anonymousUserID = [], cohortID = None,
      firstSourceURL = None, lastSourceURL = None, deviceID = [], deviceSessionID = None,
      eventID = 0, listeners = [], originalReferrer = None, sessionReferrer = None,
      sessionFirstURL = None,
      cookie_jar = (\<lambda>k. None), localStorage = (\<lambda>k. None),
      location = \<lparr>origin_path = ''https://sourcegraph.com/x'', searchParams = query\<rparr>,
      referrer = ''https://example.org/'', clock = 1700000000123,
      userAgentIsBot = isBot, isSourcegraphDotComMode = dotcom, isSecureContext = True,
      trace = []\<rparr>"

definition visitor :: "bool \<Rightarrow> bool \<Rightarrow> (string \<times> string) list \<Rightarrow> state" where
  "visitor isBot dotcom query =
     (browser isBot dotcom query)\<lparr>anonymousUserID := ''u-1'', deviceID := ''u-1'',
        deviceSessionID := Some ''u-1'', listeners := [1, 2]\<rparr>"

text \<open>What \<open>log\<close> appends to the trace after the listeners have been called.\<close>

definition log_tail :: "string \<Rightarrow> props option \<Rightarrow> props option \<Rightarrow> state \<Rightarrow> effect list" where
  "log_tail l p q s =
     (if userAgentIsBot s \<or> l = [] then []
      else TrackAction l p q # LocalStorageGet ''eventLogDebug'' #
           (if localStorage s ''eventLogDebug'' = Some ''true'' then [ConsoleDebug l p q] else []))"


subsection \<open>The read-through pattern\<close>

text \<open>
  \<open>read_through cache backing dflt\<close> is the value of \<open>cache || backing || dflt\<close>.
  \<open>written k v ttl s reads\<close> is the state \<open>s\<close> after the cookie reads \<open>reads\<close> and
  the write of \<open>v\<close> under the key \<open>k\<close> with a fresh expiry, as \<open>cookies_set\<close> makes it
  (issued always, kept in a secure context).
\<close>

definition read_through :: "string option \<Rightarrow> string option \<Rightarrow> string \<Rightarrow> string" where
  "read_through cache backing dflt =
     (if truthy cache then str cache else if truthy backing then str backing else dflt)"

definition written :: "string \<Rightarrow> string \<Rightarrow> int \<Rightarrow> state \<Rightarrow> effect list \<Rightarrow> state" where
  "written k v ttl s reads =
     s\<lparr>cookie_jar := jar_after s k v ttl,
       trace := trace s @ reads @ [CookieSet k v (expiry (clock s) ttl)]\<rparr>"


text \<open>A visitor who comes back with a live device-session cookie of another value.\<close>

definition returning :: state where
  "returning = (visitor False True [])\<lparr>cookie_jar := (\<lambda>k. None)(DEVICE_SESSION_ID_KEY \<mapsto> (''s-9'', 1700000999000))\<rparr>"

subsection \<open>Invariants of a constructed logger\<close>





definition identity_is :: "string \<Rightarrow> string option \<Rightarrow> string \<Rightarrow> state \<Rightarrow> bool" where
  "identity_is a c d s = (anonymousUserID s = a \<and> cohortID s = c \<and> deviceID s = d)"

subsection \<open>The stored identity\<close>

text \<open>
  The value of \<open>cookies.get(ANONYMOUS_USER_ID_KEY) || localStorage.getItem(ANONYMOUS_USER_ID_KEY)\<close>:
  the anonymous user id a browser already holds, in the cookie or in the legacy store.
\<close>

definition stored_anonymous_id :: "state \<Rightarrow> string option" where
  "stored_anonymous_id s =
     (if truthy (cookie_value s ANONYMOUS_USER_ID_KEY) then cookie_value s ANONYMOUS_USER_ID_KEY
      else localStorage s ANONYMOUS_USER_ID_KEY)"


text \<open>
  More browsers: one that holds an anonymous user id in the local storage only, the
  same on a page that is not served over https, and one that holds the id in a live
  cookie and has no cohort cookie. \<open>sample_fmt\<close> renders day 19674 (Monday
  13 November 2023) and no other day faithfully.
\<close>

definition legacy_browser :: state where
  "legacy_browser =
     (browser False True [])\<lparr>localStorage := (\<lambda>k. None)(ANONYMOUS_USER_ID_KEY \<mapsto> ''legacy-7'')\<rparr>"

definition http_browser :: state where
  "http_browser = (browser False True [])\<lparr>isSecureContext := False\<rparr>"

definition http_legacy_browser :: state where
  "http_legacy_browser = legacy_browser\<lparr>isSecureContext := False\<rparr>"

definition established_browser :: state where
  "established_browser =
     (browser False True [])\<lparr>cookie_jar := (\<lambda>k. None)(ANONYMOUS_USER_ID_KEY \<mapsto> (''u-0'', 1720000000000))\<rparr>"

definition sample_fmt :: "int \<Rightarrow> string" where
  "sample_fmt d = (if d = 19674 then ''2023-11-13'' else ''another day'')"

subsection \<open>The table of UTM events\<close>

text \<open>
  The table of the spec, row by row in its order, each row a condition on
  (\<open>utm_source\<close>, \<open>utm_campaign\<close>, \<open>utm_medium\<close>), the event, and whether the event
  carries the UTM properties. The conditions are the ones of the source (the regular
  expression of the fourth row as the source has it). \<open>first_match\<close> is the first row
  whose condition holds, and \<open>utm_log\<close> logs the event of that row, if there is one.
\<close>

type_synonym utm = "string option \<times> string option \<times> string option"

definition utm_of :: "URL \<Rightarrow> utm" where
  "utm_of u = (searchParams_get u ''utm_source'', searchParams_get u ''utm_campaign'',
               searchParams_get u ''utm_medium'')"

definition utm_props :: "URL \<Rightarrow> props" where
  "utm_props u =
     [(''utm_campaign'', or_undefined (searchParams_get u ''utm_campaign'')),
      (''utm_source'', or_undefined (searchParams_get u ''utm_source'')),
      (''utm_medium'', or_undefined (searchParams_get u ''utm_medium'')),
      (''utm_term'', or_undefined (searchParams_get u ''utm_term'')),
      (''utm_content'', or_undefined (searchParams_get u ''utm_content''))]"

definition utm_table :: "((utm \<Rightarrow> bool) \<times> string \<times> bool) list" where
  "utm_table =
     [(\<lambda>(source, campaign, medium). source = Some ''saved-search-email'',
         ''SavedSearchEmailClicked'', False),
      (\<lambda>(source, campaign, medium). source = Some ''saved-search-slack'',
         ''SavedSearchSlackClicked'', False),
      (\<lambda>(source, campaign, medium). source = Some ''code-monitoring-email'',
         ''CodeMonitorEmailLinkClicked'', False),
      (\<lambda>(source, campaign, medium). source = Some ''hubspot'' \<and> match_cloud_onboarding_email campaign,
         ''UTMCampaignLinkClicked'', True),
      (\<lambda>(source, campaign, medium). str source \<in> set code_host_integrations,
         ''UTMCodeHostIntegration'', True),
      (\<lambda>(source, campaign, medium). medium = Some ''VSCODE'' \<and> campaign = Some ''vsce-sign-up'',
         ''VSCODESignUpLinkClicked'', True)]"

definition first_match :: "utm \<Rightarrow> (string \<times> bool) option" where
  "first_match m = map_option snd (find (\<lambda>(condition, event). condition m) utm_table)"

definition utm_log :: "URL \<Rightarrow> state \<Rightarrow> state" where
  "utm_log u s =
     (case first_match (utm_of u) of
        None \<Rightarrow> s
      | Some (event, with_props) \<Rightarrow>
          if with_props then log event (Some (utm_props u)) (Some (utm_props u)) s
          else log event None None s)"


definition utm_events :: "string list" where
  "utm_events = map (\<lambda>(condition, event, with_props). event) utm_table"

definition signup_event :: "string \<Rightarrow> string \<Rightarrow> effect" where
  "signup_event label serviceType =
     TrackAction label (Some [(''serviceType'', Some serviceType)]) (Some [(''serviceType'', Some serviceType)])"


subsection \<open>The events of the query markers\<close>

text \<open>
  The two labels of \<open>handleQueryEvents\<close>, the URL after \<open>stripURLParameters\<close> with
  its list of markers, and the events \<open>handleQueryEvents\<close> forwards under a label for
  a URL, outside a bot context.
\<close>

definition signUpCompleted :: string where
  "signUpCompleted = ''web:auth:signUpCompleted''"

definition signInCompleted :: string where
  "signInCompleted = ''web:auth:signInCompleted''"

definition stripped :: "URL \<Rightarrow> URL" where
  "stripped u =
     u\<lparr>searchParams :=
         filter (\<lambda>(k, v). k \<notin> set [''utm_campaign'', ''utm_source'', ''utm_medium'', ''signup'', ''signin''])
           (searchParams u)\<rparr>"

definition query_events :: "string \<Rightarrow> URL \<Rightarrow> effect list" where
  "query_events L u =
     (if searchParams_has u ''signup'' \<and> L = signUpCompleted
      then [signup_event signUpCompleted (str (searchParams_get u ''signup''))] else []) @
     (if searchParams_has u ''signin'' \<and> L = signInCompleted
      then [signup_event signInCompleted (str (searchParams_get u ''signin''))] else [])"

text \<open>
  Calls by what they can do to the query markers. \<open>effective\<close>: a page view with a
  non-empty name. \<open>handles c s\<close>: in the state \<open>s\<close> the call \<open>c\<close> gets to
  \<open>handleQueryEvents\<close>, being an effective page view outside a bot context with the
  latch not set. \<open>direct L\<close>: the caller itself logs the label \<open>L\<close>.
  \<open>navigates\<close>: the call changes the URL from outside the logger.
\<close>

fun effective :: "call \<Rightarrow> bool" where
  "effective (LogPageView n p a) = (n \<noteq> [])"
| "effective (LogViewEvent n p a) = (n \<noteq> [])"
| "effective c = False"

fun direct :: "string \<Rightarrow> call \<Rightarrow> bool" where
  "direct L (Log l p q) = (l = L)"
| "direct L c = False"

fun navigates :: "call \<Rightarrow> bool" where
  "navigates (Navigate u) = True"
| "navigates c = False"

definition handles :: "call \<Rightarrow> state \<Rightarrow> bool" where
  "handles c s = (effective c \<and> \<not> userAgentIsBot s \<and> \<not> hasStrippedQueryParameters s)"

text \<open>
  A URL with the sign-up marker, and a page on which the markers have been handled
  and a later navigation has brought the marker back.
\<close>

definition signup_url :: URL where
  "signup_url = \<lparr>origin_path = ''https://sourcegraph.com/x'', searchParams = [(''signup'', ''github'')]\<rparr>"

definition revisit :: state where
  "revisit = (visitor False True [(''signup'', ''github'')])\<lparr>hasStrippedQueryParameters := True\<rparr>"

subsection \<open>The presence stream\<close>

text \<open>
  \<open>browserExtensionMessageReceived\<close> is an RxJS pipeline. An observable is modelled by
  what it delivers: the list of its notifications, each with its instant in
  milliseconds after the first subscription (the one the constructor makes when the
  module loads), in the order of delivery, and with nothing after an \<open>Error\<close> or a
  \<open>Complete\<close>. A list that ends without one of the two never terminates. The
  operators are those of the pipeline, with the semantics RxJS gives them.

  The page is what the pipeline reads: the instant at which the poll finds the marker
  element and the two data attributes of the element, if it ever finds it; the
  dispatches of the registration event with their \<open>detail\<close>, in order; and whether the
  browser is Firefox. A \<open>detail\<close> is an object with the two properties, or absent
  (\<open>detail?.platform\<close> is then undefined), or an object whose property read throws an
  error with a message.
\<close>

datatype exn = JsError string

datatype 'a notification = Next 'a | Error exn | Complete

type_synonym 'a observable = "(nat \<times> 'a notification) list"

record payload =
  platform :: "string option"
  version :: "string option"

datatype detail = Detail "string option" "string option" | NoDetail | Denied string

record page =
  marker :: "(nat \<times> string option \<times> string option) option"
  registrations :: "(nat \<times> detail) list"
  isFirefox :: bool


text \<open>
  Modelled from the spec: \<open>observeQuerySelector\<close> of \<open>../util/dom\<close> is not among the
  source files. The spec has it poll once, with a timeout, for a marker that may
  already be present; it delivers the element and completes, or fails at the timeout
  (the pipeline catches that failure).
\<close>

definition observeQuerySelector :: "nat \<Rightarrow> page \<Rightarrow> (string option \<times> string option) observable" where
  "observeQuerySelector timeout pg =
     (case marker pg of
        None \<Rightarrow> [(timeout, Error (JsError ''Timeout has occurred''))]
      | Some (t, dataset) \<Rightarrow>
          if t \<le> timeout then [(t, Next dataset), (t, Complete)]
          else [(timeout, Error (JsError ''Timeout has occurred''))])"

definition fromEvent :: "page \<Rightarrow> detail observable" where
  "fromEvent pg = map (\<lambda>(t, d). (t, Next d)) (registrations pg)"

fun take_1 :: "'a observable \<Rightarrow> 'a observable" where
  "take_1 [] = []"
| "take_1 ((t, Next x) # ns) = [(t, Next x), (t, Complete)]"
| "take_1 ((t, Error e) # ns) = [(t, Error e)]"
| "take_1 ((t, Complete) # ns) = [(t, Complete)]"

fun map_obs :: "('a \<Rightarrow> exn + 'b) \<Rightarrow> 'a observable \<Rightarrow> 'b observable" where
  "map_obs f [] = []"
| "map_obs f ((t, Next x) # ns) =
     (case f x of Inl e \<Rightarrow> [(t, Error e)] | Inr y \<Rightarrow> (t, Next y) # map_obs f ns)"
| "map_obs f ((t, Error e) # ns) = [(t, Error e)]"
| "map_obs f ((t, Complete) # ns) = [(t, Complete)]"

fun catchError_EMPTY :: "'a observable \<Rightarrow> 'a observable" where
  "catchError_EMPTY [] = []"
| "catchError_EMPTY ((t, Next x) # ns) = (t, Next x) # catchError_EMPTY ns"
| "catchError_EMPTY ((t, Error e) # ns) = [(t, Complete)]"
| "catchError_EMPTY ((t, Complete) # ns) = [(t, Complete)]"


text \<open>
  \<open>merge\<close> delivers the notifications of both sources in the order of their instants
  (the first source first when they coincide), fails when one fails, and completes when
  both have completed.
\<close>

fun interleave :: "'a observable \<Rightarrow> 'a observable \<Rightarrow> (bool \<times> nat \<times> 'a notification) list" where
  "interleave [] ys = map (\<lambda>(u, m). (False, u, m)) ys"
| "interleave xs [] = map (\<lambda>(t, n). (True, t, n)) xs"
| "interleave ((t, n) # xs) ((u, m) # ys) =
     (if t \<le> u then (True, t, n) # interleave xs ((u, m) # ys)
      else (False, u, m) # interleave ((t, n) # xs) ys)"

fun merged :: "bool \<Rightarrow> bool \<Rightarrow> (bool \<times> nat \<times> 'a notification) list \<Rightarrow> 'a observable" where
  "merged l r [] = []"
| "merged l r ((left, t, Next x) # ns) = (t, Next x) # merged l r ns"
| "merged l r ((left, t, Error e) # ns) = [(t, Error e)]"
| "merged l r ((left, t, Complete) # ns) =
     (if (if left then r else l) then [(t, Complete)]
      else merged (l \<or> left) (r \<or> \<not> left) ns)"

definition merge :: "'a observable \<Rightarrow> 'a observable \<Rightarrow> 'a observable" where
  "merge a b = merged False False (interleave a b)"


text \<open>The values and the end of a notification list.\<close>

fun nexts :: "'a observable \<Rightarrow> 'a list" where
  "nexts [] = []"
| "nexts ((t, Next x) # ns) = x # nexts ns"
| "nexts ((t, Error e) # ns) = nexts ns"
| "nexts ((t, Complete) # ns) = nexts ns"

fun terminal :: "'a observable \<Rightarrow> 'a notification option" where
  "terminal [] = None"
| "terminal ((t, Next x) # ns) = terminal ns"
| "terminal ((t, Error e) # ns) = Some (Error e)"
| "terminal ((t, Complete) # ns) = Some Complete"


text \<open>
  \<open>publishReplay(1), refCount()\<close> as a subscriber sees it who subscribes at \<open>t0\<close>,
  while the constructor's subscription holds the connection: the latest value delivered
  before \<open>t0\<close> is replayed, then comes the end of the source if it ended before \<open>t0\<close>,
  else everything the source delivers from \<open>t0\<close> on.
\<close>

definition publishReplay_1_refCount :: "'a observable \<Rightarrow> nat \<Rightarrow> 'a observable" where
  "publishReplay_1_refCount source t0 =
     (let past = takeWhile (\<lambda>(t, n). t < t0) source;
          rest = dropWhile (\<lambda>(t, n). t < t0) source
      in (if nexts past = [] then [] else [(t0, Next (last (nexts past)))]) @
         (case terminal past of None \<Rightarrow> rest | Some n \<Rightarrow> [(t0, n)]))"


text \<open>The two projections; \<open>message_includes\<close> is \<open>String.prototype.includes\<close>.\<close>

fun message_includes :: "string \<Rightarrow> string \<Rightarrow> bool" where
  "message_includes [] sub = (sub = [])"
| "message_includes (c # cs) sub = (take (length sub) (c # cs) = sub \<or> message_includes cs sub)"

definition marker_payload :: "string option \<times> string option \<Rightarrow> exn + payload" where
  "marker_payload dataset = Inr \<lparr>platform = fst dataset, version = snd dataset\<rparr>"

definition detail_payload :: "bool \<Rightarrow> detail \<Rightarrow> exn + payload" where
  \<open>detail_payload firefox d =
     (case d of
        Detail p v \<Rightarrow> Inr \<lparr>platform = p, version = v\<rparr>
      | NoDetail \<Rightarrow> Inr \<lparr>platform = None, version = None\<rparr>
      | Denied message \<Rightarrow>
          if firefox \<and> message_includes message ''Permission denied to access property "platform"''
          then Inr \<lparr>platform = Some ''firefox-extension'',
                    version = Some ''unknown due to <<Permission denied to access property "platform">>''\<rparr>
          else Inl (JsError message))\<close>

definition browserExtensionMessageReceived :: "page \<Rightarrow> nat \<Rightarrow> payload observable" where
  "browserExtensionMessageReceived pg =
     publishReplay_1_refCount
       (merge
          (catchError_EMPTY (map_obs marker_payload (observeQuerySelector 10000 pg)))
          (map_obs (detail_payload (isFirefox pg)) (take_1 (fromEvent pg))))"


text \<open>The callback the constructor subscribes.\<close>

definition presence_subscriber :: "payload \<Rightarrow> state \<Rightarrow> state" where
  "presence_subscriber p s =
     (let args = [(''platform'', platform p), (''version'', version p)];
          s1 = log ''BrowserExtensionConnectedToServer'' (Some args) (Some args) s;
          (d, s2) = debugEventLoggingEnabled s1
      in if d then emit (ConsoleDebug ''%cBrowser extension detected, sync completed'' None None) s2
         else s2)"


text \<open>
  The marker found within the timeout, and the pipeline before \<open>publishReplay\<close>.
\<close>

definition marker_found :: "page \<Rightarrow> (nat \<times> string option \<times> string option) option" where
  "marker_found pg =
     (case marker pg of
        None \<Rightarrow> None
      | Some (t, dataset) \<Rightarrow> if t \<le> 10000 then Some (t, dataset) else None)"

definition channels :: "page \<Rightarrow> payload observable" where
  "channels pg =
     merge
       (catchError_EMPTY (map_obs marker_payload (observeQuerySelector 10000 pg)))
       (map_obs (detail_payload (isFirefox pg)) (take_1 (fromEvent pg)))"


text \<open>
  The stream told by what its two channels come to, without the operators of the
  pipeline. A channel resolves when it comes to a payload:
  the poll when it finds the marker in time, the event wait when the first registration
  event comes and its detail can be read. \<open>event_result\<close> is what the event wait
  comes to, a payload or the error of the read. \<open>resolutions\<close> lists the
  resolutions with their instants, in the order in which they happen (the marker first
  when the instants coincide), up to the failure of the event wait if it fails.
  \<open>observed pg t0\<close> is what a subscriber at \<open>t0\<close> is to observe: the latest
  resolution before \<open>t0\<close>, if there is one, and every resolution from \<open>t0\<close> on.
  \<open>ending\<close> is how the stream is to end: with the error of the event wait, or
  complete once the event wait has resolved, or never.
\<close>

definition event_result :: "page \<Rightarrow> (nat \<times> (exn + payload)) option" where
  "event_result pg =
     (case registrations pg of
        [] \<Rightarrow> None
      | (t, d) # rest \<Rightarrow> Some (t, detail_payload (isFirefox pg) d))"

definition resolutions :: "page \<Rightarrow> (nat \<times> payload) list" where
  "resolutions pg =
     (case marker_found pg of
        None \<Rightarrow>
          (case event_result pg of
             None \<Rightarrow> []
           | Some (te, Inl e) \<Rightarrow> []
           | Some (te, Inr y) \<Rightarrow> [(te, y)])
      | Some (tm, p, v) \<Rightarrow>
          (case event_result pg of
             None \<Rightarrow> [(tm, \<lparr>platform = p, version = v\<rparr>)]
           | Some (te, Inl e) \<Rightarrow> if tm \<le> te then [(tm, \<lparr>platform = p, version = v\<rparr>)] else []
           | Some (te, Inr y) \<Rightarrow>
               if tm \<le> te then [(tm, \<lparr>platform = p, version = v\<rparr>), (te, y)]
               else [(te, y), (tm, \<lparr>platform = p, version = v\<rparr>)]))"

definition observed :: "page \<Rightarrow> nat \<Rightarrow> payload list" where
  "observed pg t0 =
     (let past = filter (\<lambda>(t, y). t < t0) (resolutions pg);
          coming = filter (\<lambda>(t, y). t0 \<le> t) (resolutions pg)
      in (if past = [] then [] else [snd (last past)]) @ map snd coming)"

definition ending :: "page \<Rightarrow> payload notification option" where
  "ending pg =
     (case event_result pg of
        None \<Rightarrow> None
      | Some (te, Inl e) \<Rightarrow> Some (Error e)
      | Some (te, Inr y) \<Rightarrow> Some Complete)"

text \<open>
  A page on which the extension has put the marker (found after 100 ms) and dispatches
  the registration event (after 150 ms), with two version strings to tell them apart.
\<close>

definition both_channels :: page where
  "both_channels =
     \<lparr>marker = Some (100, Some ''chrome-extension'', Some ''23.1.0''),
      registrations = [(150, Detail (Some ''chrome-extension'') (Some ''23.1.1''))],
      isFirefox = False\<rparr>"


text \<open>
  A page outside Firefox on which the registration event comes first (after 50 ms), with
  a detail whose read throws, and the marker is found after it (after 100 ms).
\<close>

definition denied_page :: page where
  "denied_page =
     \<lparr>marker = Some (100, Some ''chrome-extension'', Some ''23.1.0''),
      registrations = [(50, Denied ''Permission denied'')],
      isFirefox = False\<rparr>"

definition sample_marker :: payload where
  "sample_marker = \<lparr>platform = Some ''chrome-extension'', version = Some ''23.1.0''\<rparr>"

definition sample_event :: payload where
  "sample_event = \<lparr>platform = Some ''chrome-extension'', version = Some ''23.1.1''\<rparr>"

section \<open>Properties\<close>

subsection \<open>Each operation as one update of the state\<close>

lemmas keys_defs =
  ANONYMOUS_USER_ID_KEY_def COHORT_ID_KEY_def FIRST_SOURCE_URL_KEY_def LAST_SOURCE_URL_KEY_def
  DEVICE_ID_KEY_def DEVICE_SESSION_ID_KEY_def ORIGINAL_REFERRER_KEY_def
  MKTO_ORIGINAL_REFERRER_KEY_def SESSION_REFERRER_KEY_def SESSION_FIRST_URL_KEY_def

lemma jar_after_frame [simp]:
  "jar_after (hasStrippedQueryParameters_update f1 s) = jar_after s"
  "jar_after (anonymousUserID_update f2 s) = jar_after s"
  "jar_after (cohortID_update f3 s) = jar_after s"
  "jar_after (firstSourceURL_update f4 s) = jar_after s"
  "jar_after (lastSourceURL_update f5 s) = jar_after s"
  "jar_after (deviceID_update f6 s) = jar_after s"
  "jar_after (deviceSessionID_update f7 s) = jar_after s"
  "jar_after (eventID_update f8 s) = jar_after s"
  "jar_after (listeners_update f9 s) = jar_after s"
  "jar_after (originalReferrer_update g1 s) = jar_after s"
  "jar_after (sessionReferrer_update g2 s) = jar_after s"
  "jar_after (sessionFirstURL_update g3 s) = jar_after s"
  "jar_after (localStorage_update g4 s) = jar_after s"
  "jar_after (location_update g5 s) = jar_after s"
  "jar_after (referrer_update g6 s) = jar_after s"
  "jar_after (userAgentIsBot_update g7 s) = jar_after s"
  "jar_after (isSourcegraphDotComMode_update g8 s) = jar_after s"
  "jar_after (trace_update g9 s) = jar_after s"
  by (simp_all add: jar_after_def fun_eq_iff)

lemma jar_after_apply:
  "jar_after s k v ttl k' =
     (if isSecureContext s \<and> k' = k then Some (v, expiry (clock s) ttl) else cookie_jar s k')"
  by (simp add: jar_after_def)

lemma getDeviceSessionID_eq:
  "getDeviceSessionID s =
     (resolved_session s,
      s\<lparr>deviceSessionID := Some (resolved_session s),
        cookie_jar := jar_after s DEVICE_SESSION_ID_KEY (resolved_session s) deviceSessionCookieSettings,
        trace := trace s @ [CookieGet DEVICE_SESSION_ID_KEY,
           CookieSet DEVICE_SESSION_ID_KEY (resolved_session s) (expiry (clock s) deviceSessionCookieSettings)]\<rparr>)"
  by (simp add: getDeviceSessionID_def cookies_get_def cookies_set_def emit_def resolved_session_def
      getAnonymousUserID_def cookie_value_def Let_def)

lemma reset_eq:
  "resetSessionCookieExpiration s =
     (resolved_session s \<noteq> [],
      s\<lparr>deviceSessionID := Some (resolved_session s),
        cookie_jar := jar_after s DEVICE_SESSION_ID_KEY (resolved_session s) deviceSessionCookieSettings,
        trace := trace s @ [CookieGet DEVICE_SESSION_ID_KEY,
           CookieSet DEVICE_SESSION_ID_KEY (resolved_session s) (expiry (clock s) deviceSessionCookieSettings)]\<rparr>)"
  by (simp add: resetSessionCookieExpiration_def getDeviceSessionID_eq)

lemma logToConsole_eq:
  "logToConsole l p q s =
     s\<lparr>trace := trace s @ LocalStorageGet ''eventLogDebug'' #
        (if localStorage s ''eventLogDebug'' = Some ''true'' then [ConsoleDebug l p q] else [])\<rparr>"
  by (simp add: logToConsole_def debugEventLoggingEnabled_def localStorage_getItem_def emit_def)

lemma log_eq:
  "log l p q s =
     s\<lparr>deviceSessionID := Some (resolved_session s),
       cookie_jar := jar_after s DEVICE_SESSION_ID_KEY (resolved_session s) deviceSessionCookieSettings,
       trace := trace s @ [CookieGet DEVICE_SESSION_ID_KEY,
           CookieSet DEVICE_SESSION_ID_KEY (resolved_session s) (expiry (clock s) deviceSessionCookieSettings)]
           @ map (\<lambda>i. ListenerCall i l) (listeners s) @ log_tail l p q s\<rparr>"
  by (simp add: log_def reset_eq notify_listeners_def logToConsole_eq emit_def log_tail_def)







subsection \<open>The sample states, field by field\<close>

lemma browser_fields [simp]:
  "hasStrippedQueryParameters (browser b d q) = False"
  "anonymousUserID (browser b d q) = []"
  "cohortID (browser b d q) = None"
  "firstSourceURL (browser b d q) = None"
  "lastSourceURL (browser b d q) = None"
  "deviceID (browser b d q) = []"
  "deviceSessionID (browser b d q) = None"
  "eventID (browser b d q) = 0"
  "listeners (browser b d q) = []"
  "originalReferrer (browser b d q) = None"
  "sessionReferrer (browser b d q) = None"
  "sessionFirstURL (browser b d q) = None"
  "cookie_jar (browser b d q) = (\<lambda>k. None)"
  "localStorage (browser b d q) = (\<lambda>k. None)"
  "location (browser b d q) = \<lparr>origin_path = ''https://sourcegraph.com/x'', searchParams = q\<rparr>"
  "referrer (browser b d q) = ''https://example.org/''"
  "clock (browser b d q) = 1700000000123"
  "userAgentIsBot (browser b d q) = b"
  "isSourcegraphDotComMode (browser b d q) = d"
  "isSecureContext (browser b d q)"
  "trace (browser b d q) = []"
  by (simp_all add: browser_def)

lemma visitor_fields [simp]:
  "hasStrippedQueryParameters (visitor b d q) = False"
  "anonymousUserID (visitor b d q) = ''u-1''"
  "cohortID (visitor b d q) = None"
  "firstSourceURL (visitor b d q) = None"
  "lastSourceURL (visitor b d q) = None"
  "deviceID (visitor b d q) = ''u-1''"
  "deviceSessionID (visitor b d q) = Some ''u-1''"
  "eventID (visitor b d q) = 0"
  "listeners (visitor b d q) = [1, 2]"
  "originalReferrer (visitor b d q) = None"
  "sessionReferrer (visitor b d q) = None"
  "sessionFirstURL (visitor b d q) = None"
  "cookie_jar (visitor b d q) = (\<lambda>k. None)"
  "localStorage (visitor b d q) = (\<lambda>k. None)"
  "location (visitor b d q) = \<lparr>origin_path = ''https://sourcegraph.com/x'', searchParams = q\<rparr>"
  "referrer (visitor b d q) = ''https://example.org/''"
  "clock (visitor b d q) = 1700000000123"
  "userAgentIsBot (visitor b d q) = b"
  "isSourcegraphDotComMode (visitor b d q) = d"
  "isSecureContext (visitor b d q)"
  "trace (visitor b d q) = []"
  by (simp_all add: visitor_def)

lemma visitor_session [simp]: "resolved_session (visitor b d q) = ''u-1''"
  by (simp add: resolved_session_def cookie_value_def live_def truthy_def str_def)

lemma session_window_value [simp]: "expiry 1700000000123 deviceSessionCookieSettings = 1700001797000"
  by (simp add: expiry_def deviceSessionCookieSettings_def)


subsection \<open>Emission in a bot context or with an empty label\<close>

text \<open>
  C1 (as amended). In a bot context, or with an empty label or name: \<open>log\<close> renews the
  session, calls every registered listener with the label and stops there, so that
  nothing is forwarded; \<open>logPageView\<close> and \<open>logViewEvent\<close> do exactly what a session
  renewal does, which is one read and one write of the device-session cookie, and
  nothing else: no listener is called, nothing is forwarded, the query parameters are
  not looked at. The renewal comes first in all three, before the test for a bot or an
  empty name.
\<close>

theorem bot_or_empty_emission:
  assumes "userAgentIsBot s \<or> label = []"
  shows "log label p q s = notify_listeners label (snd (resetSessionCookieExpiration s))
       \<and> trace (log label p q s) =
           trace (snd (resetSessionCookieExpiration s)) @ map (\<lambda>i. ListenerCall i label) (listeners s)
       \<and> filter is_forward (trace (log label p q s)) = filter is_forward (trace s)
       \<and> logPageView label p a s = snd (resetSessionCookieExpiration s)
       \<and> logViewEvent label p a s = snd (resetSessionCookieExpiration s)
       \<and> trace (snd (resetSessionCookieExpiration s)) =
           trace s @ [CookieGet DEVICE_SESSION_ID_KEY,
                      CookieSet DEVICE_SESSION_ID_KEY (resolved_session s)
                        (expiry (clock s) deviceSessionCookieSettings)]"
proof -
  have bot: "userAgentIsBot (snd (resetSessionCookieExpiration s)) = userAgentIsBot s"
    by (simp add: reset_eq)
  have 1: "log label p q s = notify_listeners label (snd (resetSessionCookieExpiration s))"
    using assms by (auto simp add: log_def Let_def notify_listeners_def bot)
  have 2: "trace (log label p q s) =
           trace (snd (resetSessionCookieExpiration s)) @ map (\<lambda>i. ListenerCall i label) (listeners s)"
    by (simp add: 1 notify_listeners_def reset_eq)
  have 3: "filter is_forward (trace (log label p q s)) = filter is_forward (trace s)"
    by (simp add: 2 reset_eq filter_empty_conv)
  have 4: "logPageView label p a s = snd (resetSessionCookieExpiration s)"
    using assms by (auto simp add: logPageView_def Let_def bot)
  have 5: "logViewEvent label p a s = snd (resetSessionCookieExpiration s)"
    using assms by (auto simp add: logViewEvent_def Let_def bot)
  have 6: "trace (snd (resetSessionCookieExpiration s)) =
           trace s @ [CookieGet DEVICE_SESSION_ID_KEY,
                      CookieSet DEVICE_SESSION_ID_KEY (resolved_session s)
                        (expiry (clock s) deviceSessionCookieSettings)]"
    by (simp add: reset_eq)
  from 1 2 3 4 5 6 show ?thesis by blast
qed


theorem bot_or_empty_emission_witness:
  "userAgentIsBot (visitor True True [])
   \<and> filter is_forward (trace (log ''Foo'' None None (visitor True True []))) =
       filter is_forward (trace (visitor True True []))
   \<and> logPageView ''Foo'' None True (visitor True True []) =
       snd (resetSessionCookieExpiration (visitor True True []))"
proof -
  have h: "userAgentIsBot (visitor True True [])" by simp
  from h bot_or_empty_emission [OF disjI1 [OF h], of "''Foo''" None None True]
  show ?thesis by blast
qed

text \<open>
  The claim as first stated has the page-view path return before the session renewal.
  It does not: for a bot, \<open>logPageView\<close> reads the device-session cookie and writes it
  with a new expiry.
\<close>

theorem bot_page_view_renews_session:
  "userAgentIsBot (visitor True True [])
   \<and> trace (visitor True True []) = []
   \<and> trace (logPageView ''Home'' None True (visitor True True [])) =
       [CookieGet DEVICE_SESSION_ID_KEY, CookieSet DEVICE_SESSION_ID_KEY ''u-1'' 1700001797000]"
  by (simp add: logPageView_def reset_eq)

subsection \<open>The accessors\<close>

lemma getFirstSourceURL_eq:
  "isSourcegraphDotComMode s \<Longrightarrow>
   getFirstSourceURL s =
     (let v = read_through (firstSourceURL s) (cookie_value s FIRST_SOURCE_URL_KEY) (location_href s)
      in (v, written FIRST_SOURCE_URL_KEY v cookieSettings (s\<lparr>firstSourceURL := Some v\<rparr>)
               (if truthy (firstSourceURL s) then [] else [CookieGet FIRST_SOURCE_URL_KEY])))"
  by (simp add: getFirstSourceURL_def read_through_def written_def cookies_get_def cookies_set_def
      emit_def cookie_value_def location_href_def Let_def)

lemma getLastSourceURL_eq:
  "isSourcegraphDotComMode s \<Longrightarrow>
   getLastSourceURL s =
     (let v = read_through (lastSourceURL s) (cookie_value s LAST_SOURCE_URL_KEY) (location_href s)
      in (v, written LAST_SOURCE_URL_KEY v cookieSettings (s\<lparr>lastSourceURL := Some v\<rparr>)
               (if truthy (lastSourceURL s) then [] else [CookieGet LAST_SOURCE_URL_KEY])))"
  by (simp add: getLastSourceURL_def read_through_def written_def cookies_get_def cookies_set_def
      emit_def cookie_value_def location_href_def Let_def)

lemma getSessionReferrer_eq:
  "isSourcegraphDotComMode s \<Longrightarrow>
   getSessionReferrer s =
     (let v = read_through (sessionReferrer s) (cookie_value s SESSION_REFERRER_KEY) (referrer s)
      in (v, written SESSION_REFERRER_KEY v deviceSessionCookieSettings (s\<lparr>sessionReferrer := Some v\<rparr>)
               (if truthy (sessionReferrer s) then [] else [CookieGet SESSION_REFERRER_KEY])))"
  by (simp add: getSessionReferrer_def read_through_def written_def cookies_get_def cookies_set_def
      emit_def cookie_value_def Let_def)

lemma getSessionFirstURL_eq:
  "isSourcegraphDotComMode s \<Longrightarrow>
   getSessionFirstURL s =
     (let v = read_through (sessionFirstURL s) (cookie_value s SESSION_FIRST_URL_KEY) (location_href s)
      in (v, written SESSION_FIRST_URL_KEY v deviceSessionCookieSettings (s\<lparr>sessionFirstURL := Some v\<rparr>)
               (if truthy (sessionFirstURL s) then [] else [CookieGet SESSION_FIRST_URL_KEY])))"
  by (simp add: getSessionFirstURL_def read_through_def written_def cookies_get_def cookies_set_def
      emit_def cookie_value_def location_href_def Let_def)

lemma getOriginalReferrer_eq:
  "isSourcegraphDotComMode s \<Longrightarrow>
   getOriginalReferrer s =
     (let v = read_through (originalReferrer s) (cookie_value s ORIGINAL_REFERRER_KEY)
                (read_through None (cookie_value s MKTO_ORIGINAL_REFERRER_KEY) (referrer s))
      in (v, written ORIGINAL_REFERRER_KEY v cookieSettings (s\<lparr>originalReferrer := Some v\<rparr>)
               (if truthy (originalReferrer s) then []
                else if truthy (cookie_value s ORIGINAL_REFERRER_KEY) then [CookieGet ORIGINAL_REFERRER_KEY]
                else [CookieGet ORIGINAL_REFERRER_KEY, CookieGet MKTO_ORIGINAL_REFERRER_KEY])))"
  by (simp add: getOriginalReferrer_def read_through_def written_def cookies_get_def cookies_set_def
      emit_def cookie_value_def Let_def truthy_def)

lemma getDeviceSessionID_written:
  "getDeviceSessionID s =
     (let v = read_through (cookie_value s DEVICE_SESSION_ID_KEY) (deviceSessionID s) (anonymousUserID s)
      in (v, written DEVICE_SESSION_ID_KEY v deviceSessionCookieSettings (s\<lparr>deviceSessionID := Some v\<rparr>)
               [CookieGet DEVICE_SESSION_ID_KEY]))"
  by (simp add: getDeviceSessionID_eq read_through_def written_def resolved_session_def Let_def)

lemma not_dotcom:
  "\<not> isSourcegraphDotComMode s \<Longrightarrow>
     getFirstSourceURL s = ([], s) \<and> getLastSourceURL s = ([], s) \<and> getOriginalReferrer s = ([], s)
     \<and> getSessionReferrer s = ([], s) \<and> getSessionFirstURL s = ([], s)"
  by (simp add: getFirstSourceURL_def getLastSourceURL_def getOriginalReferrer_def
      getSessionReferrer_def getSessionFirstURL_def)

lemma returning_fields [simp]:
  "deviceSessionID returning = Some ''u-1''"
  "anonymousUserID returning = ''u-1''"
  "cookie_jar returning = (\<lambda>k. None)(DEVICE_SESSION_ID_KEY \<mapsto> (''s-9'', 1700000999000))"
  "clock returning = 1700000000123"
  "trace returning = []"
  by (simp_all add: returning_def)


text \<open>
  C2 (as amended). In \<open>sourcegraphDotComMode\<close> each of the five attribution accessors
  (first source URL, last source URL, original referrer, session referrer, session first
  URL) returns its field when the field is truthy, and then reads no cookie; otherwise
  it reads its cookie and returns it when truthy; otherwise it takes the default (the
  page URL, the document referrer, and for the original referrer the \<open>_mkto_referrer\<close>
  cookie before the document referrer). In each case it stores the value in the field
  and writes it to the cookie. Outside that mode the five return the empty string and
  change nothing. \<open>getDeviceSessionID\<close> has the other order in every mode: it always
  reads the cookie, returns it when truthy, else the field when truthy, else the
  anonymous user id, and stores and writes the value.
\<close>

theorem accessors_read_through:
  "(isSourcegraphDotComMode s \<longrightarrow>
      getFirstSourceURL s =
        (let v = read_through (firstSourceURL s) (cookie_value s FIRST_SOURCE_URL_KEY) (location_href s)
         in (v, written FIRST_SOURCE_URL_KEY v cookieSettings (s\<lparr>firstSourceURL := Some v\<rparr>)
                  (if truthy (firstSourceURL s) then [] else [CookieGet FIRST_SOURCE_URL_KEY])))
    \<and> getLastSourceURL s =
        (let v = read_through (lastSourceURL s) (cookie_value s LAST_SOURCE_URL_KEY) (location_href s)
         in (v, written LAST_SOURCE_URL_KEY v cookieSettings (s\<lparr>lastSourceURL := Some v\<rparr>)
                  (if truthy (lastSourceURL s) then [] else [CookieGet LAST_SOURCE_URL_KEY])))
    \<and> getOriginalReferrer s =
        (let v = read_through (originalReferrer s) (cookie_value s ORIGINAL_REFERRER_KEY)
                   (read_through None (cookie_value s MKTO_ORIGINAL_REFERRER_KEY) (referrer s))
         in (v, written ORIGINAL_REFERRER_KEY v cookieSettings (s\<lparr>originalReferrer := Some v\<rparr>)
                  (if truthy (originalReferrer s) then []
                   else if truthy (cookie_value s ORIGINAL_REFERRER_KEY) then [CookieGet ORIGINAL_REFERRER_KEY]
                   else [CookieGet ORIGINAL_REFERRER_KEY, CookieGet MKTO_ORIGINAL_REFERRER_KEY])))
    \<and> getSessionReferrer s =
        (let v = read_through (sessionReferrer s) (cookie_value s SESSION_REFERRER_KEY) (referrer s)
         in (v, written SESSION_REFERRER_KEY v deviceSessionCookieSettings (s\<lparr>sessionReferrer := Some v\<rparr>)
                  (if truthy (sessionReferrer s) then [] else [CookieGet SESSION_REFERRER_KEY])))
    \<and> getSessionFirstURL s =
        (let v = read_through (sessionFirstURL s) (cookie_value s SESSION_FIRST_URL_KEY) (location_href s)
         in (v, written SESSION_FIRST_URL_KEY v deviceSessionCookieSettings (s\<lparr>sessionFirstURL := Some v\<rparr>)
                  (if truthy (sessionFirstURL s) then [] else [CookieGet SESSION_FIRST_URL_KEY]))))
   \<and> (\<not> isSourcegraphDotComMode s \<longrightarrow>
        getFirstSourceURL s = ([], s) \<and> getLastSourceURL s = ([], s)
      \<and> getOriginalReferrer s = ([], s) \<and> getSessionReferrer s = ([], s)
      \<and> getSessionFirstURL s = ([], s))
   \<and> getDeviceSessionID s =
        (let v = read_through (cookie_value s DEVICE_SESSION_ID_KEY) (deviceSessionID s) (anonymousUserID s)
         in (v, written DEVICE_SESSION_ID_KEY v deviceSessionCookieSettings (s\<lparr>deviceSessionID := Some v\<rparr>)
                  [CookieGet DEVICE_SESSION_ID_KEY]))"
  using getFirstSourceURL_eq [of s] getLastSourceURL_eq [of s] getOriginalReferrer_eq [of s]
    getSessionReferrer_eq [of s] getSessionFirstURL_eq [of s] not_dotcom [of s]
    getDeviceSessionID_written [of s]
  by blast

theorem accessors_read_through_witness:
  "isSourcegraphDotComMode (visitor False True [])
   \<and> getFirstSourceURL (visitor False True []) =
       (let v = read_through (firstSourceURL (visitor False True []))
                  (cookie_value (visitor False True []) FIRST_SOURCE_URL_KEY)
                  (location_href (visitor False True []))
        in (v, written FIRST_SOURCE_URL_KEY v cookieSettings
                 ((visitor False True [])\<lparr>firstSourceURL := Some v\<rparr>)
                 (if truthy (firstSourceURL (visitor False True [])) then []
                  else [CookieGet FIRST_SOURCE_URL_KEY])))
   \<and> \<not> isSourcegraphDotComMode (visitor False False [])
   \<and> getSessionReferrer (visitor False False []) = ([], visitor False False [])"
proof -
  have h1: "isSourcegraphDotComMode (visitor False True [])" by simp
  have h2: "\<not> isSourcegraphDotComMode (visitor False False [])" by simp
  from h1 h2 accessors_read_through [of "visitor False True []"]
    accessors_read_through [of "visitor False False []"]
  show ?thesis by blast
qed

text \<open>
  The claim as first stated has every accessor return a set field without looking at
  the cookie. \<open>getDeviceSessionID\<close> does not: with the field set to \<open>u-1\<close> and a
  live cookie \<open>s-9\<close>, it reads the cookie and returns \<open>s-9\<close>.
\<close>

theorem session_cookie_before_cache:
  "deviceSessionID returning = Some ''u-1''
   \<and> fst (getDeviceSessionID returning) = ''s-9''
   \<and> trace returning = []
   \<and> trace (snd (getDeviceSessionID returning)) =
       [CookieGet DEVICE_SESSION_ID_KEY, CookieSet DEVICE_SESSION_ID_KEY ''s-9'' 1700001797000]"
  by (simp add: getDeviceSessionID_eq resolved_session_def cookie_value_def live_def truthy_def str_def)

subsection \<open>What every call preserves\<close>

text \<open>
  A page view is a chain of five kinds of steps. A property that each kind of step
  preserves is preserved by \<open>logPageView\<close> and \<open>logViewEvent\<close>.
\<close>

lemma keys_distinct [simp]:
  "FIRST_SOURCE_URL_KEY \<noteq> DEVICE_SESSION_ID_KEY"
  "LAST_SOURCE_URL_KEY \<noteq> DEVICE_SESSION_ID_KEY"
  "ORIGINAL_REFERRER_KEY \<noteq> DEVICE_SESSION_ID_KEY"
  "SESSION_REFERRER_KEY \<noteq> DEVICE_SESSION_ID_KEY"
  "SESSION_FIRST_URL_KEY \<noteq> DEVICE_SESSION_ID_KEY"
  "DEVICE_SESSION_ID_KEY \<noteq> FIRST_SOURCE_URL_KEY"
  "DEVICE_SESSION_ID_KEY \<noteq> LAST_SOURCE_URL_KEY"
  "DEVICE_SESSION_ID_KEY \<noteq> ORIGINAL_REFERRER_KEY"
  "DEVICE_SESSION_ID_KEY \<noteq> SESSION_REFERRER_KEY"
  "DEVICE_SESSION_ID_KEY \<noteq> SESSION_FIRST_URL_KEY"
  by (simp_all add: keys_defs)

lemma page_views_preserve:
  assumes log: "\<And>l p q s. P s \<Longrightarrow> P (log l p q s)"
    and emit: "\<And>e s. P s \<Longrightarrow> P (emit e s)"
    and strip: "\<And>u ps s. P s \<Longrightarrow> P (stripURLParameters u ps s)"
    and latch: "\<And>s. P s \<Longrightarrow> P (s\<lparr>hasStrippedQueryParameters := True\<rparr>)"
    and renew: "\<And>s. P s \<Longrightarrow> P (snd (resetSessionCookieExpiration s))"
  shows "P s \<Longrightarrow> P (logPageView n p a s)"
    and "P s \<Longrightarrow> P (logViewEvent n p a s)"
proof -
  have console: "P (logToConsole l x y t)" if "P t" for l x y t
    using that by (simp add: logToConsole_def debugEventLoggingEnabled_def
        localStorage_getItem_def emit)
  have utm: "P (snd (pageViewQueryParameters u t))" if "P t" for u t
    using that by (simp add: pageViewQueryParameters_def Let_def log)
  have query: "P (handleQueryEvents u t)" if "P t" for u t
    using that by (simp add: handleQueryEvents_def Let_def log strip)
  have internal: "P (logViewEventInternal l x b t)" if "P t" for l x b t
    using that by (simp add: logViewEventInternal_def Let_def split_def utm emit console query latch)
  show "P s \<Longrightarrow> P (logPageView n p a s)"
    by (simp add: logPageView_def Let_def renew internal)
  show "P s \<Longrightarrow> P (logViewEvent n p a s)"
    by (simp add: logViewEvent_def Let_def renew internal)
qed

lemma identity_log: "identity_is a c d s \<Longrightarrow> identity_is a c d (log l p q s)"
  by (simp add: identity_is_def log_eq)

lemma identity_renew: "identity_is a c d s \<Longrightarrow> identity_is a c d (snd (resetSessionCookieExpiration s))"
  by (simp add: identity_is_def reset_eq)

lemma identity_emit: "identity_is a c d s \<Longrightarrow> identity_is a c d (emit e s)"
  by (simp add: identity_is_def emit_def)

lemma identity_strip: "identity_is a c d s \<Longrightarrow> identity_is a c d (stripURLParameters u ps s)"
  by (simp add: identity_is_def stripURLParameters_def emit_def Let_def)

lemma identity_latch: "identity_is a c d s \<Longrightarrow> identity_is a c d (s\<lparr>hasStrippedQueryParameters := True\<rparr>)"
  by (simp add: identity_is_def)

lemma identity_accessors:
  assumes "identity_is a c d s"
  shows "identity_is a c d (snd (getFirstSourceURL s))"
    and "identity_is a c d (snd (getLastSourceURL s))"
    and "identity_is a c d (snd (getOriginalReferrer s))"
    and "identity_is a c d (snd (getSessionReferrer s))"
    and "identity_is a c d (snd (getSessionFirstURL s))"
    and "identity_is a c d (snd (getDeviceSessionID s))"
    and "identity_is a c d (snd (getEventID s))"
  using assms
  by (cases "isSourcegraphDotComMode s";
      simp add: identity_is_def getFirstSourceURL_eq getLastSourceURL_eq getOriginalReferrer_eq
        getSessionReferrer_eq getSessionFirstURL_eq not_dotcom getDeviceSessionID_eq getEventID_def
        written_def Let_def)+

lemma identity_perform: "identity_is a c d s \<Longrightarrow> identity_is a c d (perform call s)"
proof (cases call)
  case (LogPageView n p b)
  then show "identity_is a c d s \<Longrightarrow> ?thesis"
    using page_views_preserve(1) [of "identity_is a c d", OF identity_log identity_emit identity_strip
        identity_latch identity_renew] by simp
next
  case (LogViewEvent n p b)
  then show "identity_is a c d s \<Longrightarrow> ?thesis"
    using page_views_preserve(2) [of "identity_is a c d", OF identity_log identity_emit identity_strip
        identity_latch identity_renew] by simp
qed (simp_all add: identity_log identity_accessors, simp_all add: identity_is_def addEventLogListener_def unsubscribe_def)

lemma identity_run: "identity_is a c d s \<Longrightarrow> identity_is a c d (run cs s)"
  by (induction cs arbitrary: s) (simp_all add: identity_perform)



lemma secure_frame [simp]:
  "isSecureContext (log l p q s) = isSecureContext s"
  "isSecureContext (snd (resetSessionCookieExpiration s)) = isSecureContext s"
  "isSecureContext (snd (getDeviceSessionID s)) = isSecureContext s"
  "isSecureContext (emit e s) = isSecureContext s"
  "isSecureContext (stripURLParameters u ps s) = isSecureContext s"
  "isSecureContext (written k v ttl s r) = isSecureContext s"
  "isSecureContext (snd (getEventID s)) = isSecureContext s"
  "isSecureContext (addEventLogListener i s) = isSecureContext s"
  "isSecureContext (unsubscribe i s) = isSecureContext s"
  by (simp_all add: log_eq reset_eq getDeviceSessionID_eq emit_def stripURLParameters_def written_def
      getEventID_def addEventLogListener_def unsubscribe_def Let_def)

lemma secure_accessors [simp]:
  "isSecureContext (snd (getFirstSourceURL s)) = isSecureContext s"
  "isSecureContext (snd (getLastSourceURL s)) = isSecureContext s"
  "isSecureContext (snd (getOriginalReferrer s)) = isSecureContext s"
  "isSecureContext (snd (getSessionReferrer s)) = isSecureContext s"
  "isSecureContext (snd (getSessionFirstURL s)) = isSecureContext s"
  by (cases "isSourcegraphDotComMode s";
      simp add: getFirstSourceURL_eq getLastSourceURL_eq getOriginalReferrer_eq
        getSessionReferrer_eq getSessionFirstURL_eq not_dotcom Let_def)+

lemma secure_page_views [simp]:
  "isSecureContext (logPageView n p a s) = isSecureContext s"
  "isSecureContext (logViewEvent n p a s) = isSecureContext s"
proof -
  show "isSecureContext (logPageView n p a s) = isSecureContext s"
    by (rule page_views_preserve(1) [where P = "\<lambda>t. isSecureContext t = isSecureContext s"]) simp_all
  show "isSecureContext (logViewEvent n p a s) = isSecureContext s"
    by (rule page_views_preserve(2) [where P = "\<lambda>t. isSecureContext t = isSecureContext s"]) simp_all
qed

lemma secure_perform [simp]: "isSecureContext (perform call s) = isSecureContext s"
  by (cases call) simp_all

lemma secure_run [simp]: "isSecureContext (run cs s) = isSecureContext s"
  by (induction cs arbitrary: s) simp_all
























subsection \<open>Initialisation, step by step\<close>

text \<open>
  The chain of \<open>initializeLogParameters\<close> is followed one binding at a time; what the
  three accessors at its end leave alone is carried over them.
\<close>

lemma identity_keys_distinct [simp]:
  "ANONYMOUS_USER_ID_KEY \<noteq> COHORT_ID_KEY"
  "ANONYMOUS_USER_ID_KEY \<noteq> DEVICE_ID_KEY"
  "ANONYMOUS_USER_ID_KEY \<noteq> DEVICE_SESSION_ID_KEY"
  "DEVICE_SESSION_ID_KEY \<noteq> ANONYMOUS_USER_ID_KEY"
  "ANONYMOUS_USER_ID_KEY \<noteq> ORIGINAL_REFERRER_KEY"
  "ORIGINAL_REFERRER_KEY \<noteq> ANONYMOUS_USER_ID_KEY"
  "ANONYMOUS_USER_ID_KEY \<noteq> MKTO_ORIGINAL_REFERRER_KEY"
  "MKTO_ORIGINAL_REFERRER_KEY \<noteq> ANONYMOUS_USER_ID_KEY"
  "ANONYMOUS_USER_ID_KEY \<noteq> SESSION_REFERRER_KEY"
  "SESSION_REFERRER_KEY \<noteq> ANONYMOUS_USER_ID_KEY"
  "ANONYMOUS_USER_ID_KEY \<noteq> SESSION_FIRST_URL_KEY"
  "SESSION_FIRST_URL_KEY \<noteq> ANONYMOUS_USER_ID_KEY"
  "ANONYMOUS_USER_ID_KEY \<noteq> FIRST_SOURCE_URL_KEY"
  "FIRST_SOURCE_URL_KEY \<noteq> ANONYMOUS_USER_ID_KEY"
  "ANONYMOUS_USER_ID_KEY \<noteq> LAST_SOURCE_URL_KEY"
  "LAST_SOURCE_URL_KEY \<noteq> ANONYMOUS_USER_ID_KEY"
  "COHORT_ID_KEY \<noteq> ANONYMOUS_USER_ID_KEY"
  "COHORT_ID_KEY \<noteq> DEVICE_ID_KEY"
  "COHORT_ID_KEY \<noteq> DEVICE_SESSION_ID_KEY"
  "DEVICE_SESSION_ID_KEY \<noteq> COHORT_ID_KEY"
  "COHORT_ID_KEY \<noteq> ORIGINAL_REFERRER_KEY"
  "ORIGINAL_REFERRER_KEY \<noteq> COHORT_ID_KEY"
  "COHORT_ID_KEY \<noteq> MKTO_ORIGINAL_REFERRER_KEY"
  "MKTO_ORIGINAL_REFERRER_KEY \<noteq> COHORT_ID_KEY"
  "COHORT_ID_KEY \<noteq> SESSION_REFERRER_KEY"
  "SESSION_REFERRER_KEY \<noteq> COHORT_ID_KEY"
  "COHORT_ID_KEY \<noteq> SESSION_FIRST_URL_KEY"
  "SESSION_FIRST_URL_KEY \<noteq> COHORT_ID_KEY"
  "COHORT_ID_KEY \<noteq> FIRST_SOURCE_URL_KEY"
  "FIRST_SOURCE_URL_KEY \<noteq> COHORT_ID_KEY"
  "COHORT_ID_KEY \<noteq> LAST_SOURCE_URL_KEY"
  "LAST_SOURCE_URL_KEY \<noteq> COHORT_ID_KEY"
  "DEVICE_ID_KEY \<noteq> ANONYMOUS_USER_ID_KEY"
  "DEVICE_ID_KEY \<noteq> COHORT_ID_KEY"
  "DEVICE_ID_KEY \<noteq> DEVICE_SESSION_ID_KEY"
  "DEVICE_SESSION_ID_KEY \<noteq> DEVICE_ID_KEY"
  "DEVICE_ID_KEY \<noteq> ORIGINAL_REFERRER_KEY"
  "ORIGINAL_REFERRER_KEY \<noteq> DEVICE_ID_KEY"
  "DEVICE_ID_KEY \<noteq> MKTO_ORIGINAL_REFERRER_KEY"
  "MKTO_ORIGINAL_REFERRER_KEY \<noteq> DEVICE_ID_KEY"
  "DEVICE_ID_KEY \<noteq> SESSION_REFERRER_KEY"
  "SESSION_REFERRER_KEY \<noteq> DEVICE_ID_KEY"
  "DEVICE_ID_KEY \<noteq> SESSION_FIRST_URL_KEY"
  "SESSION_FIRST_URL_KEY \<noteq> DEVICE_ID_KEY"
  "DEVICE_ID_KEY \<noteq> FIRST_SOURCE_URL_KEY"
  "FIRST_SOURCE_URL_KEY \<noteq> DEVICE_ID_KEY"
  "DEVICE_ID_KEY \<noteq> LAST_SOURCE_URL_KEY"
  "LAST_SOURCE_URL_KEY \<noteq> DEVICE_ID_KEY"
  by (simp_all add: keys_defs)

lemma written_frame [simp]:
  "localStorage (written k v ttl s r) = localStorage s"
  "clock (written k v ttl s r) = clock s"
  "k' \<noteq> k \<Longrightarrow> cookie_jar (written k v ttl s r) k' = cookie_jar s k'"
  "cookie_jar (written k v ttl s r) k =
     (if isSecureContext s then Some (v, expiry (clock s) ttl) else cookie_jar s k)"
  "\<not> isSecureContext s \<Longrightarrow> cookie_jar (written k v ttl s r) = cookie_jar s"
  "trace (written k v ttl s r) = trace s @ r @ [CookieSet k v (expiry (clock s) ttl)]"
  by (simp_all add: written_def jar_after_def)

lemma filter_reads [simp]:
  "filter (writes_cookie k) (if c then [] else [CookieGet k']) = []"
  "filter (writes_cookie k)
     (if c then [] else if c' then [CookieGet k'] else [CookieGet k', CookieGet k'']) = []"
  by simp_all

lemma tail_frame:
  "localStorage (snd (getOriginalReferrer s)) = localStorage s"
  "localStorage (snd (getSessionReferrer s)) = localStorage s"
  "localStorage (snd (getSessionFirstURL s)) = localStorage s"
  "clock (snd (getOriginalReferrer s)) = clock s"
  "clock (snd (getSessionReferrer s)) = clock s"
  "clock (snd (getSessionFirstURL s)) = clock s"
  "k \<noteq> ORIGINAL_REFERRER_KEY \<Longrightarrow> cookie_jar (snd (getOriginalReferrer s)) k = cookie_jar s k"
  "k \<noteq> SESSION_REFERRER_KEY \<Longrightarrow> cookie_jar (snd (getSessionReferrer s)) k = cookie_jar s k"
  "k \<noteq> SESSION_FIRST_URL_KEY \<Longrightarrow> cookie_jar (snd (getSessionFirstURL s)) k = cookie_jar s k"
  "\<not> isSecureContext s \<Longrightarrow> cookie_jar (snd (getOriginalReferrer s)) = cookie_jar s"
  "\<not> isSecureContext s \<Longrightarrow> cookie_jar (snd (getSessionReferrer s)) = cookie_jar s"
  "\<not> isSecureContext s \<Longrightarrow> cookie_jar (snd (getSessionFirstURL s)) = cookie_jar s"
  "k \<noteq> ORIGINAL_REFERRER_KEY \<Longrightarrow>
     filter (writes_cookie k) (trace (snd (getOriginalReferrer s))) = filter (writes_cookie k) (trace s)"
  "k \<noteq> SESSION_REFERRER_KEY \<Longrightarrow>
     filter (writes_cookie k) (trace (snd (getSessionReferrer s))) = filter (writes_cookie k) (trace s)"
  "k \<noteq> SESSION_FIRST_URL_KEY \<Longrightarrow>
     filter (writes_cookie k) (trace (snd (getSessionFirstURL s))) = filter (writes_cookie k) (trace s)"
  by (cases "isSourcegraphDotComMode s";
      simp add: getOriginalReferrer_eq getSessionReferrer_eq getSessionFirstURL_eq not_dotcom Let_def)+

lemma io_simps:
  "fst (cookies_get k s) = cookie_value s k"
  "snd (cookies_get k s) = s\<lparr>trace := trace s @ [CookieGet k]\<rparr>"
  "fst (localStorage_getItem k s) = localStorage s k"
  "snd (localStorage_getItem k s) = s\<lparr>trace := trace s @ [LocalStorageGet k]\<rparr>"
  "cookies_set k v ttl s =
     s\<lparr>cookie_jar := jar_after s k v ttl,
       trace := trace s @ [CookieSet k v (expiry (clock s) ttl)]\<rparr>"
  "localStorage_removeItem k s =
     s\<lparr>localStorage := (localStorage s)(k := None), trace := trace s @ [LocalStorageRemove k]\<rparr>"
  by (simp_all add: cookies_get_def cookies_set_def localStorage_getItem_def
      localStorage_removeItem_def emit_def)

lemma cookie_value_simps [simp]:
  "cookie_value (s\<lparr>trace := t\<rparr>) k = cookie_value s k"
  "cookie_value (s\<lparr>deviceSessionID := d\<rparr>) k = cookie_value s k"
  "cookie_value (s\<lparr>localStorage := l\<rparr>) k = cookie_value s k"
  "k' \<noteq> k \<Longrightarrow> cookie_value (s\<lparr>cookie_jar := (cookie_jar s)(k' \<mapsto> x)\<rparr>) k = cookie_value s k"
  "k' \<noteq> k \<Longrightarrow> cookie_value (s\<lparr>cookie_jar := jar_after s k' v ttl\<rparr>) k = cookie_value s k"
  by (simp_all add: cookie_value_def jar_after_def)




lemma fst_snd_if:
  "fst (if c then x else y) = (if c then fst x else fst y)"
  "snd (if c then x else y) = (if c then snd x else snd y)"
  by simp_all


lemma init_chain:
  fixes s :: state and uuid :: string and fmt :: "int \<Rightarrow> string"
  assumes anon': "anon' = (if truthy (stored_anonymous_id s) then str (stored_anonymous_id s) else uuid)"
    and cohort': "cohort' = (if truthy (stored_anonymous_id s) then cookie_value s COHORT_ID_KEY
                             else Some (getPreviousMonday fmt (clock s)))"
    and device': "device' = (if truthy (cookie_value s DEVICE_ID_KEY) then str (cookie_value s DEVICE_ID_KEY)
                             else anon')"
    and s': "s' = initializeLogParameters uuid fmt s"
  shows "anonymousUserID s' = anon'"
    and "cohortID s' = cohort'"
    and "deviceID s' = device'"
    and "clock s' = clock s"
    and "localStorage s' ANONYMOUS_USER_ID_KEY = None"
    and "cookie_jar s' ANONYMOUS_USER_ID_KEY =
           (if isSecureContext s then Some (anon', expiry (clock s) cookieSettings)
            else cookie_jar s ANONYMOUS_USER_ID_KEY)"
    and "cookie_jar s' COHORT_ID_KEY =
           (if isSecureContext s \<and> truthy cohort' then Some (str cohort', expiry (clock s) cookieSettings)
            else cookie_jar s COHORT_ID_KEY)"
    and "cookie_jar s' DEVICE_ID_KEY =
           (if isSecureContext s then Some (device', expiry (clock s) cookieSettings)
            else cookie_jar s DEVICE_ID_KEY)"
    and "filter (writes_cookie COHORT_ID_KEY) (trace s') =
           filter (writes_cookie COHORT_ID_KEY) (trace s) @
           (if truthy cohort' then [CookieSet COHORT_ID_KEY (str cohort') (expiry (clock s) cookieSettings)]
            else [])"
    and "isSecureContext s \<Longrightarrow>
           \<exists>v. cookie_jar s' DEVICE_SESSION_ID_KEY = Some (v, expiry (clock s) deviceSessionCookieSettings)"
    and "\<not> isSecureContext s \<Longrightarrow> cookie_jar s' = cookie_jar s"
    and "isSecureContext s' = isSecureContext s"
    and "filter (writes_cookie ANONYMOUS_USER_ID_KEY) (trace s') =
           filter (writes_cookie ANONYMOUS_USER_ID_KEY) (trace s) @
           [CookieSet ANONYMOUS_USER_ID_KEY anon' (expiry (clock s) cookieSettings)]"
    and "deviceSessionID s' =
           Some (if truthy (cookie_value s DEVICE_SESSION_ID_KEY)
                 then str (cookie_value s DEVICE_SESSION_ID_KEY) else anon')"
proof -
  define c where "c = cookie_value s ANONYMOUS_USER_ID_KEY"
  define s1 where "s1 = s\<lparr>trace := trace s @ [CookieGet ANONYMOUS_USER_ID_KEY]\<rparr>"
  have e1: "cookies_get ANONYMOUS_USER_ID_KEY s = (c, s1)"
    by (simp add: c_def s1_def cookies_get_def emit_def)
  define a where "a = stored_anonymous_id s"
  define s2 where "s2 = (if truthy c then s1 else s1\<lparr>trace := trace s1 @ [LocalStorageGet ANONYMOUS_USER_ID_KEY]\<rparr>)"
  have e2: "(if truthy c then (c, s1) else localStorage_getItem ANONYMOUS_USER_ID_KEY s1) = (a, s2)"
    by (simp add: a_def s2_def c_def s1_def stored_anonymous_id_def localStorage_getItem_def emit_def)
  define co where "co = cookie_value s COHORT_ID_KEY"
  define s3 where "s3 = s2\<lparr>trace := trace s2 @ [CookieGet COHORT_ID_KEY]\<rparr>"
  have e3: "cookies_get COHORT_ID_KEY s2 = (co, s3)"
    by (simp add: co_def s3_def s2_def s1_def cookies_get_def emit_def cookie_value_def)
  define s4 where "s4 = s3\<lparr>deviceSessionID := Some []\<rparr>"
  have clock4: "clock s4 = clock s"
    by (simp add: s4_def s3_def s2_def s1_def)
  have e5: "(if \<not> truthy a then (uuid, Some (getPreviousMonday fmt (clock s4))) else (str a, co))
              = (anon', cohort')"
    by (simp add: anon' cohort' a_def co_def clock4)
  define s5 where "s5 = cookies_set ANONYMOUS_USER_ID_KEY anon' cookieSettings s4"
  define s6 where "s6 = localStorage_removeItem ANONYMOUS_USER_ID_KEY s5"
  define s7 where "s7 = (if truthy cohort' then cookies_set COHORT_ID_KEY (str cohort') cookieSettings s6 else s6)"
  define d where "d = cookie_value s DEVICE_ID_KEY"
  define s8 where "s8 = s7\<lparr>trace := trace s7 @ [CookieGet DEVICE_ID_KEY]\<rparr>"
  have clock7: "clock s7 = clock s"
    by (simp add: s7_def s6_def s5_def io_simps clock4)
  have jar4: "cookie_jar s4 = cookie_jar s"
    by (simp add: s4_def s3_def s2_def s1_def)
  have sec4: "isSecureContext s4 = isSecureContext s"
    by (simp add: s4_def s3_def s2_def s1_def)
  have sec7: "isSecureContext s7 = isSecureContext s"
    by (simp add: s7_def s6_def s5_def io_simps sec4)
  have jar7: "cookie_jar s7 DEVICE_ID_KEY = cookie_jar s DEVICE_ID_KEY"
             "cookie_jar s7 DEVICE_SESSION_ID_KEY = cookie_jar s DEVICE_SESSION_ID_KEY"
             "cookie_jar s7 ANONYMOUS_USER_ID_KEY =
                (if isSecureContext s then Some (anon', expiry (clock s) cookieSettings)
                 else cookie_jar s ANONYMOUS_USER_ID_KEY)"
             "cookie_jar s7 COHORT_ID_KEY =
                (if isSecureContext s \<and> truthy cohort' then Some (str cohort', expiry (clock s) cookieSettings)
                 else cookie_jar s COHORT_ID_KEY)"
    by (simp_all add: s7_def s6_def s5_def io_simps jar_after_apply jar4 clock4 sec4)
  have insecure7: "cookie_jar s7 = cookie_jar s" if "\<not> isSecureContext s"
    using that by (simp add: s7_def s6_def s5_def io_simps jar_after_def jar4 sec4)
  have e8: "cookies_get DEVICE_ID_KEY s7 = (d, s8)"
    by (simp add: d_def s8_def cookies_get_def emit_def cookie_value_def jar7 clock7)
  have dev: "(if \<not> truthy d then anon' else str d) = device'"
    by (simp add: device' d_def)
  define s9 where "s9 = cookies_set DEVICE_ID_KEY device' cookieSettings s8"
  define ds where "ds = cookie_value s DEVICE_SESSION_ID_KEY"
  define s10 where "s10 = s9\<lparr>trace := trace s9 @ [CookieGet DEVICE_SESSION_ID_KEY]\<rparr>"
  have e10: "cookies_get DEVICE_SESSION_ID_KEY s9 = (ds, s10)"
    by (simp add: ds_def s10_def s9_def s8_def cookies_get_def emit_def cookie_value_def cookies_set_def
        jar_after_apply jar7 clock7)
  define v where "v = (let x = (if truthy ds then ds else deviceSessionID s10)
                       in if \<not> truthy x then anon' else str x)"
  define s11 where "s11 = cookies_set DEVICE_SESSION_ID_KEY v deviceSessionCookieSettings s10"
  define r where "r = fst (cookies_get ORIGINAL_REFERRER_KEY s11)"
  define s12 where "s12 = snd (cookies_get ORIGINAL_REFERRER_KEY s11)"
  have e12: "cookies_get ORIGINAL_REFERRER_KEY s11 = (r, s12)"
    by (simp add: r_def s12_def)
  define r' where "r' = fst (if \<not> truthy r then getOriginalReferrer s12 else (str r, s12))"
  define s13 where "s13 = snd (if \<not> truthy r then getOriginalReferrer s12 else (str r, s12))"
  have e13: "(if \<not> truthy r then getOriginalReferrer s12 else (str r, s12)) = (r', s13)"
    by (simp add: r'_def s13_def)
  define sr where "sr = fst (cookies_get SESSION_REFERRER_KEY s13)"
  define s14 where "s14 = snd (cookies_get SESSION_REFERRER_KEY s13)"
  have e14: "cookies_get SESSION_REFERRER_KEY s13 = (sr, s14)"
    by (simp add: sr_def s14_def)
  define sr' where "sr' = fst (if \<not> truthy sr then getSessionReferrer s14 else (str sr, s14))"
  define s15 where "s15 = snd (if \<not> truthy sr then getSessionReferrer s14 else (str sr, s14))"
  have e15: "(if \<not> truthy sr then getSessionReferrer s14 else (str sr, s14)) = (sr', s15)"
    by (simp add: sr'_def s15_def)
  define sf where "sf = fst (cookies_get SESSION_FIRST_URL_KEY s15)"
  define s16 where "s16 = snd (cookies_get SESSION_FIRST_URL_KEY s15)"
  have e16: "cookies_get SESSION_FIRST_URL_KEY s15 = (sf, s16)"
    by (simp add: sf_def s16_def)
  define sf' where "sf' = fst (if \<not> truthy sf then getSessionFirstURL s16 else (str sf, s16))"
  define s17 where "s17 = snd (if \<not> truthy sf then getSessionFirstURL s16 else (str sf, s16))"
  have e17: "(if \<not> truthy sf then getSessionFirstURL s16 else (str sf, s16)) = (sf', s17)"
    by (simp add: sf'_def s17_def)
  have main: "s' = s17\<lparr>anonymousUserID := anon', cohortID := cohort', deviceID := device',
                deviceSessionID := Some v, originalReferrer := Some r',
                sessionReferrer := Some sr', sessionFirstURL := Some sf'\<rparr>"
    unfolding s' initializeLogParameters_def
    by (simp only: Let_def prod.case e1 e2 e3 e5 [unfolded s4_def] e8 [unfolded s7_def s6_def s5_def s4_def]
        dev e10 [unfolded s9_def] v_def [unfolded Let_def, symmetric]
        e12 [unfolded s11_def] e13 e14 e15 e16 e17)
  show "anonymousUserID s' = anon'" "cohortID s' = cohort'" "deviceID s' = device'"
    by (simp_all add: main)
  have tail_clock: "clock s17 = clock s11"
    by (simp add: s17_def s16_def s15_def s14_def s13_def s12_def io_simps tail_frame fst_snd_if)
  show "clock s' = clock s"
    by (simp add: main tail_clock s11_def s10_def s9_def s8_def io_simps clock7)
  have tail_local: "localStorage s17 = localStorage s11"
    by (simp add: s17_def s16_def s15_def s14_def s13_def s12_def io_simps tail_frame fst_snd_if)
  have tail_jar: "cookie_jar s17 k = cookie_jar s11 k"
    if "k \<noteq> ORIGINAL_REFERRER_KEY" "k \<noteq> SESSION_REFERRER_KEY" "k \<noteq> SESSION_FIRST_URL_KEY" for k
    using that
    by (simp add: s17_def s16_def s15_def s14_def s13_def s12_def io_simps tail_frame fst_snd_if)
  have tail_trace: "filter (writes_cookie COHORT_ID_KEY) (trace s17) =
                    filter (writes_cookie COHORT_ID_KEY) (trace s11)"
    by (simp add: s17_def s16_def s15_def s14_def s13_def s12_def io_simps tail_frame fst_snd_if)
  have local7: "localStorage s7 ANONYMOUS_USER_ID_KEY = None"
    by (simp add: s7_def s6_def s5_def io_simps)
  show "localStorage s' ANONYMOUS_USER_ID_KEY = None"
    by (simp add: main tail_local s11_def s10_def s9_def s8_def io_simps local7)
  have sec11: "isSecureContext s11 = isSecureContext s"
    by (simp add: s11_def s10_def s9_def s8_def io_simps sec7)
  show "cookie_jar s' ANONYMOUS_USER_ID_KEY =
           (if isSecureContext s then Some (anon', expiry (clock s) cookieSettings)
            else cookie_jar s ANONYMOUS_USER_ID_KEY)"
    by (simp add: main tail_jar s11_def s10_def s9_def s8_def io_simps jar_after_apply jar7 sec7)
  show "cookie_jar s' COHORT_ID_KEY =
           (if isSecureContext s \<and> truthy cohort' then Some (str cohort', expiry (clock s) cookieSettings)
            else cookie_jar s COHORT_ID_KEY)"
    by (simp add: main tail_jar s11_def s10_def s9_def s8_def io_simps jar_after_apply jar7 sec7)
  show "cookie_jar s' DEVICE_ID_KEY =
           (if isSecureContext s then Some (device', expiry (clock s) cookieSettings)
            else cookie_jar s DEVICE_ID_KEY)"
    by (simp add: main tail_jar s11_def s10_def s9_def s8_def io_simps jar_after_apply jar7 clock7 sec7)
  have "cookie_jar s' DEVICE_SESSION_ID_KEY = Some (v, expiry (clock s) deviceSessionCookieSettings)"
    if "isSecureContext s"
    using that
    by (simp add: main tail_jar s11_def s10_def s9_def s8_def io_simps jar_after_apply jar7 clock7 sec7)
  then show "isSecureContext s \<Longrightarrow>
      \<exists>v. cookie_jar s' DEVICE_SESSION_ID_KEY = Some (v, expiry (clock s) deviceSessionCookieSettings)"
    by blast
  have insecure11: "cookie_jar s11 = cookie_jar s" if "\<not> isSecureContext s"
    using that by (simp add: s11_def s10_def s9_def s8_def io_simps jar_after_def insecure7 sec7)
  have insecure17: "cookie_jar s17 = cookie_jar s11" if "\<not> isSecureContext s"
    using that sec11
    by (simp add: s17_def s16_def s15_def s14_def s13_def s12_def io_simps tail_frame fst_snd_if)
  show "\<not> isSecureContext s \<Longrightarrow> cookie_jar s' = cookie_jar s"
    by (simp add: main insecure17 insecure11)
  show "isSecureContext s' = isSecureContext s"
    by (simp add: main s17_def s16_def s15_def s14_def s13_def s12_def io_simps fst_snd_if sec11)
  have anon7: "filter (writes_cookie ANONYMOUS_USER_ID_KEY) (trace s7) =
           filter (writes_cookie ANONYMOUS_USER_ID_KEY) (trace s) @
           [CookieSet ANONYMOUS_USER_ID_KEY anon' (expiry (clock s) cookieSettings)]"
    by (simp add: s7_def s6_def s5_def s4_def s3_def s2_def s1_def io_simps)
  have tail_anon: "filter (writes_cookie ANONYMOUS_USER_ID_KEY) (trace s17) =
                    filter (writes_cookie ANONYMOUS_USER_ID_KEY) (trace s11)"
    by (simp add: s17_def s16_def s15_def s14_def s13_def s12_def io_simps tail_frame fst_snd_if)
  show "filter (writes_cookie ANONYMOUS_USER_ID_KEY) (trace s') =
           filter (writes_cookie ANONYMOUS_USER_ID_KEY) (trace s) @
           [CookieSet ANONYMOUS_USER_ID_KEY anon' (expiry (clock s) cookieSettings)]"
    by (simp add: main tail_anon s11_def s10_def s9_def s8_def io_simps anon7)
  have field10: "deviceSessionID s10 = Some []"
    by (simp add: s10_def s9_def s8_def s7_def s6_def s5_def s4_def io_simps)
  show "deviceSessionID s' =
           Some (if truthy (cookie_value s DEVICE_SESSION_ID_KEY)
                 then str (cookie_value s DEVICE_SESSION_ID_KEY) else anon')"
    by (simp add: main v_def ds_def field10 truthy_def)
  have trace7: "filter (writes_cookie COHORT_ID_KEY) (trace s7) =
           filter (writes_cookie COHORT_ID_KEY) (trace s) @
           (if truthy cohort' then [CookieSet COHORT_ID_KEY (str cohort') (expiry (clock s) cookieSettings)]
            else [])"
    by (simp add: s7_def s6_def s5_def s4_def s3_def s2_def s1_def io_simps)
  show "filter (writes_cookie COHORT_ID_KEY) (trace s') =
           filter (writes_cookie COHORT_ID_KEY) (trace s) @
           (if truthy cohort' then [CookieSet COHORT_ID_KEY (str cohort') (expiry (clock s) cookieSettings)]
            else [])"
    by (simp add: main tail_trace s11_def s10_def s9_def s8_def io_simps trace7)
qed

lemma previous_monday_props:
  "is_monday (previous_monday d)" "previous_monday d \<le> d" "d < previous_monday d + 7"
  unfolding is_monday_def previous_monday_def by presburger+

lemma field_initialisers_frame [simp]:
  "cookie_jar (field_initialisers s) = cookie_jar s"
  "isSecureContext (field_initialisers s) = isSecureContext s"
  "localStorage (field_initialisers s) = localStorage s"
  "clock (field_initialisers s) = clock s"
  "trace (field_initialisers s) = trace s"
  "cookie_value (field_initialisers s) k = cookie_value s k"
  "stored_anonymous_id (field_initialisers s) = stored_anonymous_id s"
  by (simp_all add: field_initialisers_def cookie_value_def stored_anonymous_id_def)


lemma new_chain:
  assumes "anon' = (if truthy (stored_anonymous_id env) then str (stored_anonymous_id env) else uuid)"
    and "cohort' = (if truthy (stored_anonymous_id env) then cookie_value env COHORT_ID_KEY
                    else Some (getPreviousMonday fmt (clock env)))"
    and "device' = (if truthy (cookie_value env DEVICE_ID_KEY) then str (cookie_value env DEVICE_ID_KEY)
                    else anon')"
    and "s' = new_EventLogger uuid fmt env"
  shows "anonymousUserID s' = anon'"
    and "cohortID s' = cohort'"
    and "deviceID s' = device'"
    and "clock s' = clock env"
    and "localStorage s' ANONYMOUS_USER_ID_KEY = None"
    and "cookie_jar s' ANONYMOUS_USER_ID_KEY =
           (if isSecureContext env then Some (anon', expiry (clock env) cookieSettings)
            else cookie_jar env ANONYMOUS_USER_ID_KEY)"
    and "cookie_jar s' COHORT_ID_KEY =
           (if isSecureContext env \<and> truthy cohort' then Some (str cohort', expiry (clock env) cookieSettings)
            else cookie_jar env COHORT_ID_KEY)"
    and "cookie_jar s' DEVICE_ID_KEY =
           (if isSecureContext env then Some (device', expiry (clock env) cookieSettings)
            else cookie_jar env DEVICE_ID_KEY)"
    and "filter (writes_cookie COHORT_ID_KEY) (trace s') =
           filter (writes_cookie COHORT_ID_KEY) (trace env) @
           (if truthy cohort' then [CookieSet COHORT_ID_KEY (str cohort') (expiry (clock env) cookieSettings)]
            else [])"
    and "isSecureContext env \<Longrightarrow>
           \<exists>v. cookie_jar s' DEVICE_SESSION_ID_KEY = Some (v, expiry (clock env) deviceSessionCookieSettings)"
    and "\<not> isSecureContext env \<Longrightarrow> cookie_jar s' = cookie_jar env"
    and "isSecureContext s' = isSecureContext env"
    and "filter (writes_cookie ANONYMOUS_USER_ID_KEY) (trace s') =
           filter (writes_cookie ANONYMOUS_USER_ID_KEY) (trace env) @
           [CookieSet ANONYMOUS_USER_ID_KEY anon' (expiry (clock env) cookieSettings)]"
    and "deviceSessionID s' =
           Some (if truthy (cookie_value env DEVICE_SESSION_ID_KEY)
                 then str (cookie_value env DEVICE_SESSION_ID_KEY) else anon')"
proof -
  have a: "anon' = (if truthy (stored_anonymous_id (field_initialisers env))
                    then str (stored_anonymous_id (field_initialisers env)) else uuid)"
    using assms(1) by simp
  have b: "cohort' = (if truthy (stored_anonymous_id (field_initialisers env))
                      then cookie_value (field_initialisers env) COHORT_ID_KEY
                      else Some (getPreviousMonday fmt (clock (field_initialisers env))))"
    using assms(2) by simp
  have c: "device' = (if truthy (cookie_value (field_initialisers env) DEVICE_ID_KEY)
                      then str (cookie_value (field_initialisers env) DEVICE_ID_KEY) else anon')"
    using assms(3) by simp
  have d: "s' = initializeLogParameters uuid fmt (field_initialisers env)"
    using assms(4) by (simp add: new_EventLogger_def)
  note chain = init_chain [OF a b c d]
  show "anonymousUserID s' = anon'" "cohortID s' = cohort'" "deviceID s' = device'"
    by (rule chain)+
  show "clock s' = clock env" "localStorage s' ANONYMOUS_USER_ID_KEY = None"
    using chain(4,5) by simp_all
  show "cookie_jar s' ANONYMOUS_USER_ID_KEY =
           (if isSecureContext env then Some (anon', expiry (clock env) cookieSettings)
            else cookie_jar env ANONYMOUS_USER_ID_KEY)"
    using chain(6) by simp
  show "cookie_jar s' COHORT_ID_KEY =
           (if isSecureContext env \<and> truthy cohort' then Some (str cohort', expiry (clock env) cookieSettings)
            else cookie_jar env COHORT_ID_KEY)"
    using chain(7) by simp
  show "cookie_jar s' DEVICE_ID_KEY =
           (if isSecureContext env then Some (device', expiry (clock env) cookieSettings)
            else cookie_jar env DEVICE_ID_KEY)"
    using chain(8) by simp
  show "filter (writes_cookie COHORT_ID_KEY) (trace s') =
           filter (writes_cookie COHORT_ID_KEY) (trace env) @
           (if truthy cohort' then [CookieSet COHORT_ID_KEY (str cohort') (expiry (clock env) cookieSettings)]
            else [])"
    using chain(9) by simp
  show "isSecureContext env \<Longrightarrow>
           \<exists>v. cookie_jar s' DEVICE_SESSION_ID_KEY = Some (v, expiry (clock env) deviceSessionCookieSettings)"
    using chain(10) by simp
  show "\<not> isSecureContext env \<Longrightarrow> cookie_jar s' = cookie_jar env"
    using chain(11) by simp
  show "isSecureContext s' = isSecureContext env"
    using chain(12) by simp
  show "filter (writes_cookie ANONYMOUS_USER_ID_KEY) (trace s') =
           filter (writes_cookie ANONYMOUS_USER_ID_KEY) (trace env) @
           [CookieSet ANONYMOUS_USER_ID_KEY anon' (expiry (clock env) cookieSettings)]"
    using chain(13) by simp
  show "deviceSessionID s' =
           Some (if truthy (cookie_value env DEVICE_SESSION_ID_KEY)
                 then str (cookie_value env DEVICE_SESSION_ID_KEY) else anon')"
    using chain(14) by simp
qed


subsection \<open>A first visit\<close>

text \<open>
  C4. When the browser holds no anonymous user id (neither a live, non-empty cookie nor
  a non-empty value in the local storage) and no device id cookie, the constructed
  logger has the freshly generated id as its anonymous user id, the label of the Monday
  of the current week as its cohort id (a Monday, on or before today, less than seven
  days back), and the anonymous user id as its device id.
\<close>

theorem fresh_identity:
  assumes "\<not> truthy (cookie_value env ANONYMOUS_USER_ID_KEY)"
    and "\<not> truthy (localStorage env ANONYMOUS_USER_ID_KEY)"
    and "\<not> truthy (cookie_value env DEVICE_ID_KEY)"
  shows "getAnonymousUserID (new_EventLogger uuid fmt env) = uuid
       \<and> getCohortID (new_EventLogger uuid fmt env) = Some (fmt (previous_monday (day_of (clock env))))
       \<and> is_monday (previous_monday (day_of (clock env)))
       \<and> previous_monday (day_of (clock env)) \<le> day_of (clock env)
       \<and> day_of (clock env) < previous_monday (day_of (clock env)) + 7
       \<and> getDeviceID (new_EventLogger uuid fmt env) = uuid"
proof -
  have none: "\<not> truthy (stored_anonymous_id env)"
    using assms by (simp add: stored_anonymous_id_def)
  show ?thesis
    using assms none
    by (simp add: getAnonymousUserID_def getCohortID_def getDeviceID_def
        new_chain(1-3) [OF refl refl refl refl] getPreviousMonday_def previous_monday_props)
qed


lemma sample_init [simp]:
  "cookie_value (browser b d q) k = None"
  "stored_anonymous_id (browser b d q) = None"
  "day_of 1700000000123 = 19675"
  "previous_monday 19675 = 19674"
  by (simp_all add: cookie_value_def live_def stored_anonymous_id_def truthy_def day_of_def
      previous_monday_def)

theorem fresh_identity_witness:
  "\<not> truthy (cookie_value (browser False True []) ANONYMOUS_USER_ID_KEY)
   \<and> \<not> truthy (localStorage (browser False True []) ANONYMOUS_USER_ID_KEY)
   \<and> \<not> truthy (cookie_value (browser False True []) DEVICE_ID_KEY)
   \<and> getAnonymousUserID (new_EventLogger ''u-1'' sample_fmt (browser False True [])) = ''u-1''
   \<and> getCohortID (new_EventLogger ''u-1'' sample_fmt (browser False True [])) = Some ''2023-11-13''
   \<and> getDeviceID (new_EventLogger ''u-1'' sample_fmt (browser False True [])) = ''u-1''"
proof -
  have h: "\<not> truthy (cookie_value (browser False True []) ANONYMOUS_USER_ID_KEY)"
    "\<not> truthy (localStorage (browser False True []) ANONYMOUS_USER_ID_KEY)"
    "\<not> truthy (cookie_value (browser False True []) DEVICE_ID_KEY)"
    by (simp_all add: truthy_def)
  from fresh_identity [OF h, of "''u-1''" sample_fmt] h show ?thesis
    by (simp add: sample_fmt_def)
qed


subsection \<open>Migration from the local storage\<close>

lemma legacy_fields [simp]:
  "cookie_jar legacy_browser = (\<lambda>k. None)"
  "localStorage legacy_browser = (\<lambda>k. None)(ANONYMOUS_USER_ID_KEY \<mapsto> ''legacy-7'')"
  "clock legacy_browser = 1700000000123"
  "isSecureContext legacy_browser"
  "trace legacy_browser = []"
  by (simp_all add: legacy_browser_def)

lemma http_legacy_fields [simp]:
  "cookie_jar http_legacy_browser = (\<lambda>k. None)"
  "localStorage http_legacy_browser = (\<lambda>k. None)(ANONYMOUS_USER_ID_KEY \<mapsto> ''legacy-7'')"
  "clock http_legacy_browser = 1700000000123"
  "\<not> isSecureContext http_legacy_browser"
  "trace http_legacy_browser = []"
  by (simp_all add: http_legacy_browser_def)





subsection \<open>The cohort id is never backfilled\<close>

text \<open>
  C6. When the browser already holds an anonymous user id, the logger takes the cohort
  id as the cookie has it, and keeps the stored anonymous user id. If there is no
  cohort cookie, the cohort id stays absent, no cohort cookie is written and none
  exists afterwards. A cohort id that differs from the cookie's is only ever assigned
  together with a newly generated anonymous user id.
\<close>

theorem cohort_never_backfilled:
  "(truthy (stored_anonymous_id env) \<longrightarrow>
      getCohortID (new_EventLogger uuid fmt env) = cookie_value env COHORT_ID_KEY
    \<and> getAnonymousUserID (new_EventLogger uuid fmt env) = str (stored_anonymous_id env))
   \<and> (truthy (stored_anonymous_id env) \<and> cookie_value env COHORT_ID_KEY = None \<longrightarrow>
      getCohortID (new_EventLogger uuid fmt env) = None
    \<and> cookie_value (new_EventLogger uuid fmt env) COHORT_ID_KEY = None
    \<and> filter (writes_cookie COHORT_ID_KEY) (trace (new_EventLogger uuid fmt env)) =
        filter (writes_cookie COHORT_ID_KEY) (trace env))
   \<and> (getCohortID (new_EventLogger uuid fmt env) \<noteq> cookie_value env COHORT_ID_KEY \<longrightarrow>
      \<not> truthy (stored_anonymous_id env)
    \<and> getAnonymousUserID (new_EventLogger uuid fmt env) = uuid)"
  by (auto simp add: getCohortID_def getAnonymousUserID_def cookie_value_def truthy_def
      new_chain(1,2,4,7,9) [OF refl refl refl refl])

lemma established_fields [simp]:
  "cookie_jar established_browser = (\<lambda>k. None)(ANONYMOUS_USER_ID_KEY \<mapsto> (''u-0'', 1720000000000))"
  "localStorage established_browser = (\<lambda>k. None)"
  "clock established_browser = 1700000000123"
  "isSecureContext established_browser"
  "trace established_browser = []"
  by (simp_all add: established_browser_def)

theorem cohort_never_backfilled_witness:
  "truthy (stored_anonymous_id established_browser)
   \<and> cookie_value established_browser COHORT_ID_KEY = None
   \<and> getAnonymousUserID (new_EventLogger ''u-1'' sample_fmt established_browser) = ''u-0''
   \<and> getCohortID (new_EventLogger ''u-1'' sample_fmt established_browser) = None
   \<and> cookie_value (new_EventLogger ''u-1'' sample_fmt established_browser) COHORT_ID_KEY = None
   \<and> filter (writes_cookie COHORT_ID_KEY) (trace (new_EventLogger ''u-1'' sample_fmt established_browser)) = []
   \<and> getCohortID (new_EventLogger ''u-1'' sample_fmt (browser False True [])) \<noteq>
       cookie_value (browser False True []) COHORT_ID_KEY
   \<and> getAnonymousUserID (new_EventLogger ''u-1'' sample_fmt (browser False True [])) = ''u-1''"
proof -
  have h: "truthy (stored_anonymous_id established_browser)"
    "cookie_value established_browser COHORT_ID_KEY = None"
    "str (stored_anonymous_id established_browser) = ''u-0''"
    by (simp_all add: stored_anonymous_id_def cookie_value_def live_def truthy_def str_def)
  have g: "getCohortID (new_EventLogger ''u-1'' sample_fmt (browser False True [])) \<noteq>
       cookie_value (browser False True []) COHORT_ID_KEY"
    by (simp add: getCohortID_def new_chain(2) [OF refl refl refl refl] truthy_def)
  from cohort_never_backfilled [of established_browser "''u-1''" sample_fmt]
    cohort_never_backfilled [of "browser False True []" "''u-1''" sample_fmt] h g
  show ?thesis by simp
qed

subsection \<open>Session renewal\<close>





lemma http_browser_fields [simp]:
  "cookie_jar http_browser = (\<lambda>k. None)"
  "localStorage http_browser = (\<lambda>k. None)"
  "clock http_browser = 1700000000123"
  "\<not> isSecureContext http_browser"
  "trace http_browser = []"
  by (simp_all add: http_browser_def)






subsection \<open>The three plain getters\<close>

lemma last_written: "last (trace (written k v ttl s r)) = CookieSet k v (expiry (clock s) ttl)"
  by (simp add: written_def)

text \<open>
  C10 (as amended). \<open>getAnonymousUserID\<close>, \<open>getCohortID\<close> and \<open>getDeviceID\<close> are
  functions of the state alone: they return a field and give back no state, so they
  read and write no cookie and no local storage. Whatever calls are made on the
  logger, in any mode, they keep returning what they returned before the calls, and so
  the values of the initialisation. \<open>getDeviceSessionID\<close> differs: it ends with a
  write of its cookie on every call. The five attribution accessors end with a write
  of their cookie on every call in \<open>sourcegraphDotComMode\<close> only; outside it they
  leave the state as it is.
\<close>

theorem identity_getters_fixed:
  "getAnonymousUserID (run cs s) = getAnonymousUserID s
   \<and> getCohortID (run cs s) = getCohortID s
   \<and> getDeviceID (run cs s) = getDeviceID s
   \<and> writes_cookie DEVICE_SESSION_ID_KEY (last (trace (snd (getDeviceSessionID s))))
   \<and> (isSourcegraphDotComMode s \<longrightarrow>
        writes_cookie FIRST_SOURCE_URL_KEY (last (trace (snd (getFirstSourceURL s))))
      \<and> writes_cookie LAST_SOURCE_URL_KEY (last (trace (snd (getLastSourceURL s))))
      \<and> writes_cookie ORIGINAL_REFERRER_KEY (last (trace (snd (getOriginalReferrer s))))
      \<and> writes_cookie SESSION_REFERRER_KEY (last (trace (snd (getSessionReferrer s))))
      \<and> writes_cookie SESSION_FIRST_URL_KEY (last (trace (snd (getSessionFirstURL s)))))
   \<and> (\<not> isSourcegraphDotComMode s \<longrightarrow>
        snd (getFirstSourceURL s) = s \<and> snd (getLastSourceURL s) = s
      \<and> snd (getOriginalReferrer s) = s \<and> snd (getSessionReferrer s) = s
      \<and> snd (getSessionFirstURL s) = s)"
proof -
  have "identity_is (anonymousUserID s) (cohortID s) (deviceID s) (run cs s)"
    by (rule identity_run) (simp add: identity_is_def)
  then have 1: "getAnonymousUserID (run cs s) = getAnonymousUserID s
     \<and> getCohortID (run cs s) = getCohortID s \<and> getDeviceID (run cs s) = getDeviceID s"
    by (simp add: identity_is_def getAnonymousUserID_def getCohortID_def getDeviceID_def)
  have 2: "writes_cookie DEVICE_SESSION_ID_KEY (last (trace (snd (getDeviceSessionID s))))"
    by (simp add: getDeviceSessionID_eq)
  have 3: "isSourcegraphDotComMode s \<longrightarrow>
        writes_cookie FIRST_SOURCE_URL_KEY (last (trace (snd (getFirstSourceURL s))))
      \<and> writes_cookie LAST_SOURCE_URL_KEY (last (trace (snd (getLastSourceURL s))))
      \<and> writes_cookie ORIGINAL_REFERRER_KEY (last (trace (snd (getOriginalReferrer s))))
      \<and> writes_cookie SESSION_REFERRER_KEY (last (trace (snd (getSessionReferrer s))))
      \<and> writes_cookie SESSION_FIRST_URL_KEY (last (trace (snd (getSessionFirstURL s))))"
    by (simp add: getFirstSourceURL_eq getLastSourceURL_eq getOriginalReferrer_eq
        getSessionReferrer_eq getSessionFirstURL_eq Let_def last_written)
  have 4: "\<not> isSourcegraphDotComMode s \<longrightarrow>
        snd (getFirstSourceURL s) = s \<and> snd (getLastSourceURL s) = s
      \<and> snd (getOriginalReferrer s) = s \<and> snd (getSessionReferrer s) = s
      \<and> snd (getSessionFirstURL s) = s"
    by (simp add: not_dotcom)
  from 1 2 3 4 show ?thesis by blast
qed

theorem identity_getters_fixed_witness:
  "isSourcegraphDotComMode (visitor False True [])
   \<and> writes_cookie FIRST_SOURCE_URL_KEY (last (trace (snd (getFirstSourceURL (visitor False True [])))))
   \<and> \<not> isSourcegraphDotComMode (visitor False False [])
   \<and> snd (getFirstSourceURL (visitor False False [])) = visitor False False []
   \<and> getAnonymousUserID (run [LogPageView ''Home'' None True, GetFirstSourceURL, Log ''Clicked'' None None]
        (visitor False True [])) = ''u-1''"
proof -
  have h: "isSourcegraphDotComMode (visitor False True [])"
    "\<not> isSourcegraphDotComMode (visitor False False [])"
    "getAnonymousUserID (visitor False True []) = ''u-1''"
    by (simp_all add: getAnonymousUserID_def)
  from h identity_getters_fixed [of "[LogPageView ''Home'' None True, GetFirstSourceURL, Log ''Clicked'' None None]"
      "visitor False True []"]
    identity_getters_fixed [of "[]" "visitor False False []"]
  show ?thesis by simp
qed

text \<open>
  The claim as first stated has the other accessors write their record on every call.
  Outside \<open>sourcegraphDotComMode\<close>, \<open>getFirstSourceURL\<close> writes nothing.
\<close>

theorem accessor_off_dotcom_writes_nothing:
  "\<not> isSourcegraphDotComMode (visitor False False [])
   \<and> trace (visitor False False []) = []
   \<and> trace (snd (getFirstSourceURL (visitor False False []))) = []
   \<and> cookie_jar (snd (getFirstSourceURL (visitor False False []))) FIRST_SOURCE_URL_KEY = None"
  by (simp add: getFirstSourceURL_def)

subsection \<open>The UTM events of a page view\<close>

lemma pageViewQueryParameters_eq:
  "pageViewQueryParameters u s = (utm_props u, utm_log u s)"
proof -
  let ?source = "searchParams_get u ''utm_source''"
  let ?campaign = "searchParams_get u ''utm_campaign''"
  let ?medium = "searchParams_get u ''utm_medium''"
  let ?c1 = "?source = Some ''saved-search-email''"
  let ?c2 = "?source = Some ''saved-search-slack''"
  let ?c3 = "?source = Some ''code-monitoring-email''"
  let ?c4 = "?source = Some ''hubspot'' \<and> match_cloud_onboarding_email ?campaign"
  let ?c5 = "str ?source \<in> set code_host_integrations"
  let ?c6 = "?medium = Some ''VSCODE'' \<and> ?campaign = Some ''vsce-sign-up''"
  note defs = pageViewQueryParameters_def utm_log_def first_match_def utm_table_def utm_of_def
      utm_props_def Let_def
  consider (a) "?c1" | (b) "\<not> ?c1" "?c2" | (c) "\<not> ?c1" "\<not> ?c2" "?c3"
    | (d) "\<not> ?c1" "\<not> ?c2" "\<not> ?c3" "?c4"
    | (e) "\<not> ?c1" "\<not> ?c2" "\<not> ?c3" "\<not> ?c4" "?c5"
    | (f) "\<not> ?c1" "\<not> ?c2" "\<not> ?c3" "\<not> ?c4" "\<not> ?c5" "?c6"
    | (g) "\<not> ?c1" "\<not> ?c2" "\<not> ?c3" "\<not> ?c4" "\<not> ?c5" "\<not> ?c6"
    by blast
  then show ?thesis
  proof cases
    case a then show ?thesis by (simp add: defs)
  next
    case b then show ?thesis by (simp add: defs)
  next
    case c then show ?thesis by (simp add: defs)
  next
    case d then show ?thesis by (simp add: defs; blast)
  next
    case e then show ?thesis by (simp add: defs; blast)
  next
    case f then show ?thesis by (simp add: defs; blast)
  next
    case g then show ?thesis by (simp add: defs; blast)
  qed
qed


lemma utm_events_eq:
  "utm_events = [''SavedSearchEmailClicked'', ''SavedSearchSlackClicked'', ''CodeMonitorEmailLinkClicked'',
                 ''UTMCampaignLinkClicked'', ''UTMCodeHostIntegration'', ''VSCODESignUpLinkClicked'']"
  by (simp add: utm_events_def utm_table_def)

lemma first_match_event: "first_match m = Some (event, w) \<Longrightarrow> event \<in> set utm_events"
proof -
  assume "first_match m = Some (event, w)"
  then obtain c where "find (\<lambda>(condition, e). condition m) utm_table = Some (c, event, w)"
    by (auto simp add: first_match_def)
  then have "(c, event, w) \<in> set utm_table"
    by (auto simp add: find_Some_iff in_set_conv_nth)
  then show ?thesis
    by (force simp add: utm_events_def)
qed

lemma filter_listener_calls [simp]:
  "filter is_forward (map (\<lambda>i. ListenerCall i l) xs) = []"
  "filter (tracks L) (map (\<lambda>i. ListenerCall i l) xs) = []"
  by (simp_all add: filter_empty_conv)

lemma forward_log:
  "filter is_forward (trace (log l p q s)) =
     filter is_forward (trace s) @ (if userAgentIsBot s \<or> l = [] then [] else [TrackAction l p q])"
  by (simp add: log_eq log_tail_def)

lemma tracks_log:
  "filter (tracks L) (trace (log l p q s)) =
     filter (tracks L) (trace s) @ (if \<not> userAgentIsBot s \<and> l \<noteq> [] \<and> l = L then [TrackAction l p q] else [])"
  by (simp add: log_eq log_tail_def)

lemma log_frame [simp]:
  "hasStrippedQueryParameters (log l p q s) = hasStrippedQueryParameters s"
  "location (log l p q s) = location s"
  "userAgentIsBot (log l p q s) = userAgentIsBot s"
  by (simp_all add: log_eq)

lemma utm_log_frame [simp]:
  "hasStrippedQueryParameters (utm_log u s) = hasStrippedQueryParameters s"
  "location (utm_log u s) = location s"
  "userAgentIsBot (utm_log u s) = userAgentIsBot s"
  by (simp_all add: utm_log_def split: option.splits prod.splits)

lemma tracks_utm_log:
  "L \<notin> set utm_events \<Longrightarrow> filter (tracks L) (trace (utm_log u s)) = filter (tracks L) (trace s)"
  using first_match_event [of "utm_of u"]
  by (auto simp add: utm_log_def tracks_log split: option.splits prod.splits)

lemma forward_utm_log:
  "filter is_forward (trace (utm_log u s)) =
     filter is_forward (trace s) @
     (case first_match (utm_of u) of
        None \<Rightarrow> []
      | Some (event, with_props) \<Rightarrow>
          if userAgentIsBot s then []
          else [TrackAction event (if with_props then Some (utm_props u) else None)
                  (if with_props then Some (utm_props u) else None)])"
  using first_match_event [of "utm_of u"]
  by (auto simp add: utm_log_def forward_log utm_events_eq split: option.splits prod.splits)


text \<open>
  C8. One evaluation of \<open>pageViewQueryParameters\<close> makes at most one call of \<open>log\<close>,
  for the event of the first row of the table whose condition the URL meets, and none
  when no row matches; so it forwards at most one event (none in a bot context). A URL
  whose \<open>utm_source\<close> is \<open>saved-search-slack\<close> gives \<open>SavedSearchSlackClicked\<close>,
  without properties, and no other event.
\<close>

theorem utm_first_match:
  "pageViewQueryParameters u s = (utm_props u, utm_log u s)
   \<and> filter is_forward (trace (utm_log u s)) =
       filter is_forward (trace s) @
       (case first_match (utm_of u) of
          None \<Rightarrow> []
        | Some (event, with_props) \<Rightarrow>
            if userAgentIsBot s then []
            else [TrackAction event (if with_props then Some (utm_props u) else None)
                    (if with_props then Some (utm_props u) else None)])
   \<and> length (filter is_forward (trace (snd (pageViewQueryParameters u s))))
       \<le> length (filter is_forward (trace s)) + 1
   \<and> (searchParams_get u ''utm_source'' = Some ''saved-search-slack'' \<longrightarrow>
        first_match (utm_of u) = Some (''SavedSearchSlackClicked'', False)
      \<and> snd (pageViewQueryParameters u s) = log ''SavedSearchSlackClicked'' None None s
      \<and> filter is_forward (trace (snd (pageViewQueryParameters u s))) =
          filter is_forward (trace s) @
          (if userAgentIsBot s then [] else [TrackAction ''SavedSearchSlackClicked'' None None]))"
proof -
  have 1: "pageViewQueryParameters u s = (utm_props u, utm_log u s)"
    by (rule pageViewQueryParameters_eq)
  have 2: "length (filter is_forward (trace (snd (pageViewQueryParameters u s))))
       \<le> length (filter is_forward (trace s)) + 1"
    by (simp add: 1 forward_utm_log split: option.splits)
  have 3: "first_match (utm_of u) = Some (''SavedSearchSlackClicked'', False)"
    if "searchParams_get u ''utm_source'' = Some ''saved-search-slack''"
    using that by (simp add: first_match_def utm_table_def utm_of_def)
  have 4: "snd (pageViewQueryParameters u s) = log ''SavedSearchSlackClicked'' None None s"
    if "searchParams_get u ''utm_source'' = Some ''saved-search-slack''"
    using 3 [OF that] by (simp add: 1 utm_log_def)
  have 5: "filter is_forward (trace (snd (pageViewQueryParameters u s))) =
          filter is_forward (trace s) @
          (if userAgentIsBot s then [] else [TrackAction ''SavedSearchSlackClicked'' None None])"
    if "searchParams_get u ''utm_source'' = Some ''saved-search-slack''"
    by (simp add: 4 [OF that] forward_log)
  from 1 2 3 4 5 forward_utm_log [of u s] show ?thesis by blast
qed

theorem utm_first_match_witness:
  "searchParams_get \<lparr>origin_path = ''https://sourcegraph.com/x'',
                    searchParams = [(''utm_source'', ''saved-search-slack'')]\<rparr> ''utm_source''
     = Some ''saved-search-slack''
   \<and> filter is_forward (trace (snd (pageViewQueryParameters
         \<lparr>origin_path = ''https://sourcegraph.com/x'',
          searchParams = [(''utm_source'', ''saved-search-slack'')]\<rparr>
         (visitor False True [(''utm_source'', ''saved-search-slack'')])))) =
       [TrackAction ''SavedSearchSlackClicked'' None None]"
proof -
  have h: "searchParams_get \<lparr>origin_path = ''https://sourcegraph.com/x'',
                    searchParams = [(''utm_source'', ''saved-search-slack'')]\<rparr> ''utm_source''
     = Some ''saved-search-slack''"
    by (simp add: searchParams_get_def)
  from h utm_first_match [of "\<lparr>origin_path = ''https://sourcegraph.com/x'',
          searchParams = [(''utm_source'', ''saved-search-slack'')]\<rparr>"
      "visitor False True [(''utm_source'', ''saved-search-slack'')]"]
  show ?thesis by simp
qed

subsection \<open>The query markers are handled once\<close>

lemma not_utm_events [simp]:
  "signUpCompleted \<notin> set utm_events" "signInCompleted \<notin> set utm_events"
  "signUpCompleted \<noteq> []" "signInCompleted \<noteq> []" "signUpCompleted \<noteq> signInCompleted"
  by (simp_all add: utm_events_eq signUpCompleted_def signInCompleted_def)

lemma handleQueryEvents_frame:
  "hasStrippedQueryParameters (handleQueryEvents u s) = hasStrippedQueryParameters s"
  "userAgentIsBot (handleQueryEvents u s) = userAgentIsBot s"
  "location (handleQueryEvents u s) = stripped u"
  by (simp_all add: handleQueryEvents_def stripURLParameters_def emit_def Let_def stripped_def)

lemma tracks_handleQueryEvents:
  "\<not> userAgentIsBot s \<Longrightarrow>
   filter (tracks L) (trace (handleQueryEvents u s)) = filter (tracks L) (trace s) @ query_events L u"
  by (simp add: handleQueryEvents_def stripURLParameters_def emit_def Let_def tracks_log
      query_events_def signup_event_def signUpCompleted_def signInCompleted_def)

lemma logToConsole_frame:
  "hasStrippedQueryParameters (logToConsole l p q s) = hasStrippedQueryParameters s"
  "userAgentIsBot (logToConsole l p q s) = userAgentIsBot s"
  "location (logToConsole l p q s) = location s"
  "filter (tracks L) (trace (logToConsole l p q s)) = filter (tracks L) (trace s)"
  by (simp_all add: logToConsole_eq)

lemma internal_frame:
  "userAgentIsBot (logViewEventInternal n p a s) = userAgentIsBot s"
  "hasStrippedQueryParameters (logViewEventInternal n p a s)"
  "location (logViewEventInternal n p a s) =
     (if hasStrippedQueryParameters s then location s else stripped (location s))"
  by (simp_all add: logViewEventInternal_def pageViewQueryParameters_eq emit_def logToConsole_frame
      handleQueryEvents_frame Let_def)

lemma tracks_internal:
  "\<not> userAgentIsBot s \<Longrightarrow> L \<notin> set utm_events \<Longrightarrow>
   filter (tracks L) (trace (logViewEventInternal n p a s)) =
     filter (tracks L) (trace s) @
     (if hasStrippedQueryParameters s then [] else query_events L (location s))"
  by (simp add: logViewEventInternal_def pageViewQueryParameters_eq emit_def logToConsole_frame
      handleQueryEvents_frame tracks_handleQueryEvents tracks_utm_log Let_def)

lemma reset_frame:
  "userAgentIsBot (snd (resetSessionCookieExpiration s)) = userAgentIsBot s"
  "hasStrippedQueryParameters (snd (resetSessionCookieExpiration s)) = hasStrippedQueryParameters s"
  "location (snd (resetSessionCookieExpiration s)) = location s"
  "filter (tracks L) (trace (snd (resetSessionCookieExpiration s))) = filter (tracks L) (trace s)"
  by (simp_all add: reset_eq)

lemma tracks_written [simp]:
  "filter (tracks L) (trace (written k v ttl s r)) = filter (tracks L) (trace s) @ filter (tracks L) r"
  "userAgentIsBot (written k v ttl s r) = userAgentIsBot s"
  "hasStrippedQueryParameters (written k v ttl s r) = hasStrippedQueryParameters s"
  "location (written k v ttl s r) = location s"
  by (simp_all add: written_def)

lemma accessor_frame:
  "userAgentIsBot (snd (getFirstSourceURL s)) = userAgentIsBot s"
  "userAgentIsBot (snd (getLastSourceURL s)) = userAgentIsBot s"
  "userAgentIsBot (snd (getOriginalReferrer s)) = userAgentIsBot s"
  "userAgentIsBot (snd (getSessionReferrer s)) = userAgentIsBot s"
  "userAgentIsBot (snd (getSessionFirstURL s)) = userAgentIsBot s"
  "hasStrippedQueryParameters (snd (getFirstSourceURL s)) = hasStrippedQueryParameters s"
  "hasStrippedQueryParameters (snd (getLastSourceURL s)) = hasStrippedQueryParameters s"
  "hasStrippedQueryParameters (snd (getOriginalReferrer s)) = hasStrippedQueryParameters s"
  "hasStrippedQueryParameters (snd (getSessionReferrer s)) = hasStrippedQueryParameters s"
  "hasStrippedQueryParameters (snd (getSessionFirstURL s)) = hasStrippedQueryParameters s"
  "location (snd (getFirstSourceURL s)) = location s"
  "location (snd (getLastSourceURL s)) = location s"
  "location (snd (getOriginalReferrer s)) = location s"
  "location (snd (getSessionReferrer s)) = location s"
  "location (snd (getSessionFirstURL s)) = location s"
  "filter (tracks L) (trace (snd (getFirstSourceURL s))) = filter (tracks L) (trace s)"
  "filter (tracks L) (trace (snd (getLastSourceURL s))) = filter (tracks L) (trace s)"
  "filter (tracks L) (trace (snd (getOriginalReferrer s))) = filter (tracks L) (trace s)"
  "filter (tracks L) (trace (snd (getSessionReferrer s))) = filter (tracks L) (trace s)"
  "filter (tracks L) (trace (snd (getSessionFirstURL s))) = filter (tracks L) (trace s)"
  by (cases "isSourcegraphDotComMode s";
      simp add: getFirstSourceURL_eq getLastSourceURL_eq getOriginalReferrer_eq
        getSessionReferrer_eq getSessionFirstURL_eq not_dotcom Let_def)+

lemma session_frame:
  "userAgentIsBot (snd (getDeviceSessionID s)) = userAgentIsBot s"
  "hasStrippedQueryParameters (snd (getDeviceSessionID s)) = hasStrippedQueryParameters s"
  "location (snd (getDeviceSessionID s)) = location s"
  "filter (tracks L) (trace (snd (getDeviceSessionID s))) = filter (tracks L) (trace s)"
  by (simp_all add: getDeviceSessionID_eq)

lemma page_view_step:
  assumes "L \<notin> set utm_events"
  shows "userAgentIsBot (logPageView n p a s) = userAgentIsBot s"
    and "userAgentIsBot (logViewEvent n p a s) = userAgentIsBot s"
    and "hasStrippedQueryParameters (logPageView n p a s) =
           (hasStrippedQueryParameters s \<or> handles (LogPageView n p a) s)"
    and "hasStrippedQueryParameters (logViewEvent n p a s) =
           (hasStrippedQueryParameters s \<or> handles (LogViewEvent n p a) s)"
    and "location (logPageView n p a s) =
           (if handles (LogPageView n p a) s then stripped (location s) else location s)"
    and "location (logViewEvent n p a s) =
           (if handles (LogViewEvent n p a) s then stripped (location s) else location s)"
    and "filter (tracks L) (trace (logPageView n p a s)) =
           filter (tracks L) (trace s) @
           (if handles (LogPageView n p a) s then query_events L (location s) else [])"
    and "filter (tracks L) (trace (logViewEvent n p a s)) =
           filter (tracks L) (trace s) @
           (if handles (LogViewEvent n p a) s then query_events L (location s) else [])"
  using assms
  by (cases "userAgentIsBot s";
      simp add: handles_def logPageView_def logViewEvent_def Let_def reset_frame internal_frame
        tracks_internal)+

lemma perform_step:
  assumes "L \<notin> set utm_events" and "\<not> direct L c"
  shows "userAgentIsBot (perform c s) = userAgentIsBot s"
    and "hasStrippedQueryParameters (perform c s) = (hasStrippedQueryParameters s \<or> handles c s)"
    and "\<not> navigates c \<Longrightarrow>
           location (perform c s) = (if handles c s then stripped (location s) else location s)"
    and "filter (tracks L) (trace (perform c s)) =
           filter (tracks L) (trace s) @ (if handles c s then query_events L (location s) else [])"
proof -
  note frames = page_view_step [OF assms(1)] accessor_frame session_frame tracks_log
    getEventID_def addEventLogListener_def unsubscribe_def
  show "userAgentIsBot (perform c s) = userAgentIsBot s"
    by (cases c) (simp_all add: frames)
  show "hasStrippedQueryParameters (perform c s) = (hasStrippedQueryParameters s \<or> handles c s)"
    by (cases c) (simp_all add: frames, simp_all add: handles_def)
  show "\<not> navigates c \<Longrightarrow>
           location (perform c s) = (if handles c s then stripped (location s) else location s)"
    by (cases c) (simp_all add: frames, simp_all add: handles_def)
  show "filter (tracks L) (trace (perform c s)) =
           filter (tracks L) (trace s) @ (if handles c s then query_events L (location s) else [])"
    using assms(2) by (cases c) (simp_all add: frames, simp_all add: handles_def)
qed

lemma run_calls:
  assumes "\<forall>c\<in>set cs. \<not> direct L c \<and> \<not> navigates c"
    and "\<not> userAgentIsBot s" and "L \<notin> set utm_events"
  shows "userAgentIsBot (run cs s) = userAgentIsBot s
       \<and> hasStrippedQueryParameters (run cs s) = (hasStrippedQueryParameters s \<or> list_ex effective cs)
       \<and> location (run cs s) =
           (if \<not> hasStrippedQueryParameters s \<and> list_ex effective cs then stripped (location s)
            else location s)
       \<and> filter (tracks L) (trace (run cs s)) =
           filter (tracks L) (trace s) @
           (if \<not> hasStrippedQueryParameters s \<and> list_ex effective cs then query_events L (location s)
            else [])"
  using assms
proof (induction cs arbitrary: s)
  case Nil
  then show ?case by simp
next
  case (Cons c cs)
  have c: "\<not> direct L c" "\<not> navigates c" and cs: "\<forall>c\<in>set cs. \<not> direct L c \<and> \<not> navigates c"
    using Cons.prems(1) by simp_all
  note step = perform_step(1,2,4) [OF Cons.prems(3) c(1)] perform_step(3) [OF Cons.prems(3) c]
  have bot: "\<not> userAgentIsBot (perform c s)"
    using Cons.prems(2) by (simp add: step(1))
  from Cons.IH [OF cs bot Cons.prems(3)] Cons.prems(2) show ?case
    by (auto simp add: step handles_def)
qed

lemma run_latched:
  assumes "\<forall>c\<in>set cs. \<not> direct L c"
    and "hasStrippedQueryParameters s" and "L \<notin> set utm_events"
  shows "hasStrippedQueryParameters (run cs s)
       \<and> filter (tracks L) (trace (run cs s)) = filter (tracks L) (trace s)"
  using assms
proof (induction cs arbitrary: s)
  case Nil
  then show ?case by simp
next
  case (Cons c cs)
  have c: "\<not> direct L c" and cs: "\<forall>c\<in>set cs. \<not> direct L c"
    using Cons.prems(1) by simp_all
  note step = perform_step(2,4) [OF Cons.prems(3) c, of s]
  have latch: "hasStrippedQueryParameters (perform c s)"
    using Cons.prems(2) by (simp add: step(1))
  from Cons.IH [OF cs latch Cons.prems(3)] Cons.prems(2) show ?case
    by (simp add: step handles_def)
qed


lemma run_append: "run (xs @ ys) s = run ys (run xs s)"
  by (induction xs arbitrary: s) simp_all

lemma stripped_has_no_signup: "\<not> searchParams_has (stripped u) ''signup''"
  by (auto simp add: searchParams_has_def stripped_def)

lemma query_events_signup:
  "searchParams_get u ''signup'' = Some v \<Longrightarrow>
   query_events signUpCompleted u = [signup_event signUpCompleted v]"
  by (auto simp add: query_events_def searchParams_get_def searchParams_has_def str_def
      dest: map_of_SomeD intro: rev_image_eqI)


text \<open>
  C9. Outside a bot context, on a freshly loaded page whose URL carries
  \<open>signup=github\<close>: after any sequence of calls on the logger and of time passing
  (the caller not logging the sign-up label itself, and the URL not changed from
  outside) the sign-up event, with \<open>serviceType = github\<close> as private and as public
  property, has been forwarded exactly once if one of the calls was a page view with a
  non-empty name, and not at all otherwise; the latch is set exactly from the first
  such page view on, and the URL then has no \<open>signup\<close> parameter. Once the latch is
  set, in whatever state and whatever the URL is or becomes (a navigation may bring
  \<open>signup=github\<close> back), it stays set and no call forwards a sign-up or sign-in
  event again, other than a call that logs that label itself; running the same calls
  a second time adds none.
\<close>

theorem signup_logged_once:
  assumes bot: "\<not> userAgentIsBot s"
    and latch: "\<not> hasStrippedQueryParameters s"
    and url: "searchParams_get (location s) ''signup'' = Some ''github''"
    and cs: "\<forall>c\<in>set cs. \<not> direct signUpCompleted c \<and> \<not> navigates c"
    and later: "\<forall>c\<in>set later. \<not> direct signUpCompleted c \<and> \<not> direct signInCompleted c"
    and latched: "hasStrippedQueryParameters s'"
  shows "filter (tracks signUpCompleted) (trace (run cs s)) =
           filter (tracks signUpCompleted) (trace s) @
           (if list_ex effective cs then [signup_event signUpCompleted ''github''] else [])
       \<and> hasStrippedQueryParameters (run cs s) = list_ex effective cs
       \<and> (list_ex effective cs \<longrightarrow>
            \<not> searchParams_has (location (run cs s)) ''signup''
          \<and> hasStrippedQueryParameters (run later (run cs s))
          \<and> filter (tracks signUpCompleted) (trace (run later (run cs s))) =
              filter (tracks signUpCompleted) (trace (run cs s))
          \<and> filter (tracks signInCompleted) (trace (run later (run cs s))) =
              filter (tracks signInCompleted) (trace (run cs s)))
       \<and> hasStrippedQueryParameters (run later s')
       \<and> filter (tracks signUpCompleted) (trace (run later s')) =
           filter (tracks signUpCompleted) (trace s')
       \<and> filter (tracks signInCompleted) (trace (run later s')) =
           filter (tracks signInCompleted) (trace s')
       \<and> filter (tracks signUpCompleted) (trace (run (cs @ cs) s)) =
           filter (tracks signUpCompleted) (trace (run cs s))"
proof -
  have up: "\<forall>c\<in>set later. \<not> direct signUpCompleted c" and "in": "\<forall>c\<in>set later. \<not> direct signInCompleted c"
    using later by simp_all
  note first = run_calls [OF cs bot not_utm_events(1)]
  have 1: "filter (tracks signUpCompleted) (trace (run cs s)) =
           filter (tracks signUpCompleted) (trace s) @
           (if list_ex effective cs then [signup_event signUpCompleted ''github''] else [])"
    using first latch by (simp add: query_events_signup [OF url])
  have 2: "hasStrippedQueryParameters (run cs s) = list_ex effective cs"
    using first latch by simp
  have bot': "\<not> userAgentIsBot (run cs s)"
    using first bot by simp
  have 3: "\<not> searchParams_has (location (run cs s)) ''signup''" if "list_ex effective cs"
    using first latch that by (simp add: stripped_has_no_signup)
  have 4: "hasStrippedQueryParameters (run later t)
       \<and> filter (tracks signUpCompleted) (trace (run later t)) = filter (tracks signUpCompleted) (trace t)
       \<and> filter (tracks signInCompleted) (trace (run later t)) = filter (tracks signInCompleted) (trace t)"
    if "hasStrippedQueryParameters t" for t
    using run_latched [OF up that not_utm_events(1)] run_latched [OF "in" that not_utm_events(2)]
    by simp
  have 5: "filter (tracks signUpCompleted) (trace (run (cs @ cs) s)) =
           filter (tracks signUpCompleted) (trace (run cs s))"
  proof (cases "list_ex effective cs")
    case True
    with run_calls [OF cs bot' not_utm_events(1)] 2 show ?thesis
      by (simp add: run_append)
  next
    case False
    with run_calls [OF cs bot' not_utm_events(1)] show ?thesis
      by (simp add: run_append)
  qed
  from 1 2 3 4 [OF latched] 4 [of "run cs s"] 5 show ?thesis by simp
qed

lemma revisit_fields [simp]:
  "userAgentIsBot revisit = False"
  "hasStrippedQueryParameters revisit"
  "location revisit = \<lparr>origin_path = ''https://sourcegraph.com/x'', searchParams = [(''signup'', ''github'')]\<rparr>"
  "trace revisit = []"
  by (simp_all add: revisit_def)

theorem signup_logged_once_witness:
  "\<not> userAgentIsBot (visitor False True [(''signup'', ''github'')])
   \<and> \<not> hasStrippedQueryParameters (visitor False True [(''signup'', ''github'')])
   \<and> searchParams_get (location (visitor False True [(''signup'', ''github'')])) ''signup'' = Some ''github''
   \<and> hasStrippedQueryParameters revisit
   \<and> searchParams_get (location revisit) ''signup'' = Some ''github''
   \<and> filter (tracks signUpCompleted)
        (trace (run [Navigate signup_url, Tick 5000, Log ''Clicked'' None None, LogViewEvent ''Blob'' None True]
                 (run [GetFirstSourceURL, LogPageView ''Home'' None True]
                    (visitor False True [(''signup'', ''github'')])))) =
       [TrackAction ''web:auth:signUpCompleted'' (Some [(''serviceType'', Some ''github'')])
          (Some [(''serviceType'', Some ''github'')])]
   \<and> \<not> searchParams_has
         (location (run [GetFirstSourceURL, LogPageView ''Home'' None True]
                      (visitor False True [(''signup'', ''github'')]))) ''signup''
   \<and> filter (tracks signUpCompleted)
        (trace (run [Navigate signup_url, Tick 5000, Log ''Clicked'' None None, LogViewEvent ''Blob'' None True]
                  revisit)) = []"
proof -
  have h: "\<not> userAgentIsBot (visitor False True [(''signup'', ''github'')])"
    "\<not> hasStrippedQueryParameters (visitor False True [(''signup'', ''github'')])"
    "searchParams_get (location (visitor False True [(''signup'', ''github'')])) ''signup'' = Some ''github''"
    by (simp_all add: searchParams_get_def)
  have c: "\<forall>c\<in>set [GetFirstSourceURL, LogPageView ''Home'' None True].
             \<not> direct signUpCompleted c \<and> \<not> navigates c"
    "\<forall>c\<in>set [Navigate signup_url, Tick 5000, Log ''Clicked'' None None, LogViewEvent ''Blob'' None True].
       \<not> direct signUpCompleted c \<and> \<not> direct signInCompleted c"
    by (simp_all add: signUpCompleted_def signInCompleted_def)
  have r: "hasStrippedQueryParameters revisit"
    "searchParams_get (location revisit) ''signup'' = Some ''github''"
    by (simp_all add: searchParams_get_def signup_url_def)
  from signup_logged_once [OF h c r(1)] h r show ?thesis
    by (simp add: signup_event_def signUpCompleted_def)
qed

subsection \<open>The presence stream\<close>

lemma stream_eq: "browserExtensionMessageReceived pg = publishReplay_1_refCount (channels pg)"
  by (simp add: browserExtensionMessageReceived_def channels_def)

lemma left_channel:
  "catchError_EMPTY (map_obs marker_payload (observeQuerySelector 10000 pg)) =
     (case marker_found pg of
        None \<Rightarrow> [(10000, Complete)]
      | Some (t, p, v) \<Rightarrow> [(t, Next \<lparr>platform = p, version = v\<rparr>), (t, Complete)])"
  by (simp add: observeQuerySelector_def marker_found_def marker_payload_def
      split: option.splits prod.splits)

lemma right_channel:
  "map_obs f (take_1 (fromEvent pg)) =
     (case registrations pg of
        [] \<Rightarrow> []
      | (t, d) # rest \<Rightarrow>
          (case f d of Inl e \<Rightarrow> [(t, Error e)] | Inr y \<Rightarrow> [(t, Next y), (t, Complete)]))"
  by (cases "registrations pg") (auto simp add: fromEvent_def split: sum.splits)

lemma nexts_append [simp]: "nexts (xs @ ys) = nexts xs @ nexts ys"
  by (induction xs rule: nexts.induct) simp_all

lemma terminal_not_next: "terminal ns = Some n \<Longrightarrow> nexts [(t, n)] = []"
  by (induction ns rule: terminal.induct) auto

lemma nexts_merged: "length (nexts (merged l r ns)) \<le> length (nexts (map snd ns))"
proof (induction ns arbitrary: l r)
  case Nil
  then show ?case by simp
next
  case (Cons n ns)
  obtain left t x where n: "n = (left, t, x)" by (cases n)
  show ?case
  proof (cases x)
    case (Next y)
    with Cons.IH [of l r] n show ?thesis by simp
  next
    case (Error e)
    with n show ?thesis by simp
  next
    case Complete
    with Cons.IH [of "l \<or> left" "r \<or> \<not> left"] n show ?thesis by simp
  qed
qed

lemma nexts_interleave:
  "length (nexts (map snd (interleave a b))) = length (nexts a) + length (nexts b)"
proof (induction a b rule: interleave.induct)
  case (1 ys)
  have "map snd (map (\<lambda>(u, m). (False, u, m)) ys) = ys"
    by (induction ys) auto
  then show ?case by simp
next
  case (2 x xs)
  have "map snd (map (\<lambda>(t, n). (True, t, n)) (x # xs)) = x # xs"
    by (induction xs) (auto split: prod.splits)
  then show ?case by simp
next
  case (3 t n xs u m ys)
  then show ?case by (cases n; cases m) simp_all
qed

lemma nexts_merge: "length (nexts (merge a b)) \<le> length (nexts a) + length (nexts b)"
  using nexts_merged [of False False "interleave a b"] by (simp add: merge_def nexts_interleave)

lemma nexts_channels: "length (nexts (channels pg)) \<le> 2"
proof -
  have "length (nexts (catchError_EMPTY (map_obs marker_payload (observeQuerySelector 10000 pg)))) \<le> 1"
    by (simp add: left_channel split: option.splits)
  moreover have "length (nexts (map_obs (detail_payload (isFirefox pg)) (take_1 (fromEvent pg)))) \<le> 1"
    by (simp add: right_channel split: list.splits sum.splits)
  ultimately show ?thesis
    using nexts_merge [of "catchError_EMPTY (map_obs marker_payload (observeQuerySelector 10000 pg))"
        "map_obs (detail_payload (isFirefox pg)) (take_1 (fromEvent pg))"]
    by (simp add: channels_def)
qed

lemma nexts_replay: "length (nexts (publishReplay_1_refCount source t0)) \<le> length (nexts source)"
proof -
  define past where "past = takeWhile (\<lambda>(t, n). t < t0) source"
  define rest where "rest = dropWhile (\<lambda>(t, n). t < t0) source"
  define replay where "replay = (if nexts past = [] then [] else [(t0, Next (last (nexts past)))])"
  define live where "live = (case terminal past of None \<Rightarrow> rest | Some n \<Rightarrow> [(t0, n)])"
  have "nexts source = nexts past @ nexts rest"
    unfolding past_def rest_def by (simp flip: nexts_append)
  then have 1: "length (nexts source) = length (nexts past) + length (nexts rest)"
    by simp
  have 2: "length (nexts replay) \<le> length (nexts past)"
    unfolding replay_def by (cases "nexts past") simp_all
  have 3: "length (nexts live) \<le> length (nexts rest)"
    unfolding live_def by (cases "terminal past") (simp_all add: terminal_not_next)
  have "publishReplay_1_refCount source t0 = replay @ live"
    unfolding publishReplay_1_refCount_def Let_def past_def rest_def replay_def live_def ..
  with 1 2 3 show ?thesis by simp
qed


lemma replay_from_start: "publishReplay_1_refCount source 0 = source"
proof -
  have "takeWhile (\<lambda>(t, n). t < 0) source = []"
    by (cases source) auto
  moreover have "dropWhile (\<lambda>(t, n). t < 0) source = source"
    by (cases source) auto
  ultimately show ?thesis
    by (simp add: publishReplay_1_refCount_def)
qed

lemma channels_eq:
  "channels pg =
     merge
       (case marker_found pg of
          None \<Rightarrow> [(10000, Complete)]
        | Some (t, p, v) \<Rightarrow> [(t, Next \<lparr>platform = p, version = v\<rparr>), (t, Complete)])
       (case registrations pg of
          [] \<Rightarrow> []
        | (t, d) # rest \<Rightarrow>
            (case detail_payload (isFirefox pg) d of
               Inl e \<Rightarrow> [(t, Error e)]
             | Inr y \<Rightarrow> [(t, Next y), (t, Complete)]))"
  by (simp add: channels_def left_channel right_channel)

lemma nexts_stream: "nexts (browserExtensionMessageReceived pg t0) = observed pg t0"
proof (cases "marker_found pg")
  case None
  show ?thesis
  proof (cases "registrations pg")
    case Nil
    with None show ?thesis
      by (simp add: stream_eq channels_eq merge_def publishReplay_1_refCount_def observed_def
          resolutions_def event_result_def)
  next
    case (Cons r rest)
    obtain te d where r: "r = (te, d)" by (cases r)
    show ?thesis
    proof (cases "detail_payload (isFirefox pg) d")
      case (Inl e)
      with None Cons r show ?thesis
        by (simp add: stream_eq channels_eq merge_def publishReplay_1_refCount_def observed_def
            resolutions_def event_result_def)
    next
      case (Inr y)
      with None Cons r show ?thesis
        by (simp add: stream_eq channels_eq merge_def publishReplay_1_refCount_def observed_def
            resolutions_def event_result_def)
    qed
  qed
next
  case (Some m)
  obtain tm p v where m: "m = (tm, p, v)" by (cases m)
  show ?thesis
  proof (cases "registrations pg")
    case Nil
    with Some m show ?thesis
      by (simp add: stream_eq channels_eq merge_def publishReplay_1_refCount_def observed_def
          resolutions_def event_result_def)
  next
    case (Cons r rest)
    obtain te d where r: "r = (te, d)" by (cases r)
    show ?thesis
    proof (cases "detail_payload (isFirefox pg) d")
      case (Inl e)
      with Some m Cons r show ?thesis
        by (auto simp add: stream_eq channels_eq merge_def publishReplay_1_refCount_def observed_def
            resolutions_def event_result_def)
    next
      case (Inr y)
      with Some m Cons r show ?thesis
        by (auto simp add: stream_eq channels_eq merge_def publishReplay_1_refCount_def observed_def
            resolutions_def event_result_def)
    qed
  qed
qed

lemma terminal_stream: "terminal (browserExtensionMessageReceived pg t0) = ending pg"
proof (cases "marker_found pg")
  case None
  show ?thesis
  proof (cases "registrations pg")
    case Nil
    with None show ?thesis
      by (simp add: stream_eq channels_eq merge_def publishReplay_1_refCount_def ending_def
          event_result_def)
  next
    case (Cons r rest)
    obtain te d where r: "r = (te, d)" by (cases r)
    show ?thesis
    proof (cases "detail_payload (isFirefox pg) d")
      case (Inl e)
      with None Cons r show ?thesis
        by (simp add: stream_eq channels_eq merge_def publishReplay_1_refCount_def ending_def
            event_result_def)
    next
      case (Inr y)
      with None Cons r show ?thesis
        by (simp add: stream_eq channels_eq merge_def publishReplay_1_refCount_def ending_def
            event_result_def)
    qed
  qed
next
  case (Some m)
  obtain tm p v where m: "m = (tm, p, v)" by (cases m)
  show ?thesis
  proof (cases "registrations pg")
    case Nil
    with Some m show ?thesis
      by (simp add: stream_eq channels_eq merge_def publishReplay_1_refCount_def ending_def
          event_result_def)
  next
    case (Cons r rest)
    obtain te d where r: "r = (te, d)" by (cases r)
    show ?thesis
    proof (cases "detail_payload (isFirefox pg) d")
      case (Inl e)
      with Some m Cons r show ?thesis
        by (auto simp add: stream_eq channels_eq merge_def publishReplay_1_refCount_def ending_def
            event_result_def)
    next
      case (Inr y)
      with Some m Cons r show ?thesis
        by (auto simp add: stream_eq channels_eq merge_def publishReplay_1_refCount_def ending_def
            event_result_def)
    qed
  qed
qed

lemma observed_from_start: "observed pg 0 = map snd (resolutions pg)"
proof -
  have "filter (\<lambda>(t, y). t < 0) xs = []" and "filter (\<lambda>(t, y). 0 \<le> t) xs = xs"
    for xs :: "(nat \<times> payload) list"
    by (induction xs) auto
  then show ?thesis
    by (simp add: observed_def)
qed

lemma resolutions_length: "length (resolutions pg) \<le> 2"
  by (simp add: resolutions_def split: option.splits prod.splits sum.splits)

lemma forward_presence_subscriber:
  "filter is_forward (trace (presence_subscriber p s)) =
     filter is_forward (trace s) @
     (if userAgentIsBot s then []
      else [TrackAction ''BrowserExtensionConnectedToServer''
              (Some [(''platform'', platform p), (''version'', version p)])
              (Some [(''platform'', platform p), (''version'', version p)])])"
  by (simp add: presence_subscriber_def debugEventLoggingEnabled_def localStorage_getItem_def
      emit_def forward_log Let_def)

lemma presence_subscriber_bot [simp]:
  "userAgentIsBot (presence_subscriber p s) = userAgentIsBot s"
  by (simp add: presence_subscriber_def debugEventLoggingEnabled_def localStorage_getItem_def
      emit_def Let_def)

text \<open>
  C3 (as amended). Each of the two channels resolves at most once. The event wait fails
  when the detail of the first registration event cannot be read (outside the Firefox
  special case), and the stream then fails with that error: what was delivered before
  stands, nothing is delivered after, so a marker found later is never delivered.
  Apart from that every resolution is delivered, in the order of resolution, so at most
  two payloads are delivered and neither channel's result is disregarded. A subscriber
  observes the latest payload delivered before it subscribed, if there is one, and
  every payload delivered from then on; a subscriber from the start observes all of
  them. So when only one channel resolves and the other does not fail, every
  subscriber, whenever it subscribes, observes that one payload exactly once; when
  both resolve, a subscriber from the start observes both payloads in the order of
  resolution, and a subscriber that comes after both observes one payload, the later
  one; and when the event wait fails, a subscriber observes the payload of the marker
  if it was found no later than the failure, and nothing otherwise. The stream
  completes once the event wait has resolved and never ends when no registration event
  comes.
\<close>

theorem presence_stream:
  "nexts (browserExtensionMessageReceived pg t0) = observed pg t0
   \<and> terminal (browserExtensionMessageReceived pg t0) = ending pg
   \<and> nexts (browserExtensionMessageReceived pg 0) = map snd (resolutions pg)
   \<and> length (resolutions pg) \<le> 2
   \<and> length (nexts (browserExtensionMessageReceived pg t0)) \<le> 2
   \<and> (marker_found pg = None \<and> registrations pg = [] \<longrightarrow>
        nexts (browserExtensionMessageReceived pg t0) = [])
   \<and> (marker_found pg = Some (tm, p, v) \<and> registrations pg = [] \<longrightarrow>
        nexts (browserExtensionMessageReceived pg t0) = [\<lparr>platform = p, version = v\<rparr>])
   \<and> (marker_found pg = None \<and> registrations pg = (te, d) # rest
        \<and> detail_payload (isFirefox pg) d = Inr y \<longrightarrow>
        nexts (browserExtensionMessageReceived pg t0) = [y])
   \<and> (marker_found pg = Some (tm, p, v) \<and> registrations pg = (te, d) # rest
        \<and> detail_payload (isFirefox pg) d = Inr y \<longrightarrow>
        nexts (browserExtensionMessageReceived pg 0) =
          (if tm \<le> te then [\<lparr>platform = p, version = v\<rparr>, y] else [y, \<lparr>platform = p, version = v\<rparr>])
      \<and> (max tm te < t0 \<longrightarrow>
           nexts (browserExtensionMessageReceived pg t0) =
             [if tm \<le> te then y else \<lparr>platform = p, version = v\<rparr>]))
   \<and> (registrations pg = (te, d) # rest \<and> detail_payload (isFirefox pg) d = Inl e \<longrightarrow>
        terminal (browserExtensionMessageReceived pg t0) = Some (Error e)
      \<and> nexts (browserExtensionMessageReceived pg t0) =
          (case marker_found pg of
             None \<Rightarrow> []
           | Some (tm, p, v) \<Rightarrow> if tm \<le> te then [\<lparr>platform = p, version = v\<rparr>] else []))"
proof -
  note defs = nexts_stream terminal_stream observed_def ending_def resolutions_def event_result_def
  have 1: "nexts (browserExtensionMessageReceived pg t0) = observed pg t0"
    by (rule nexts_stream)
  have 2: "terminal (browserExtensionMessageReceived pg t0) = ending pg"
    by (rule terminal_stream)
  have 3: "nexts (browserExtensionMessageReceived pg 0) = map snd (resolutions pg)"
    by (simp add: nexts_stream observed_from_start)
  have 4: "length (resolutions pg) \<le> 2"
    by (rule resolutions_length)
  have 5: "length (nexts (browserExtensionMessageReceived pg t0)) \<le> 2"
    using nexts_replay [of "channels pg" t0] nexts_channels [of pg] by (simp add: stream_eq)
  have 6: "marker_found pg = None \<and> registrations pg = [] \<longrightarrow>
        nexts (browserExtensionMessageReceived pg t0) = []"
    by (simp add: defs)
  have 7: "marker_found pg = Some (tm, p, v) \<and> registrations pg = [] \<longrightarrow>
        nexts (browserExtensionMessageReceived pg t0) = [\<lparr>platform = p, version = v\<rparr>]"
    by (simp add: defs)
  have 8: "marker_found pg = None \<and> registrations pg = (te, d) # rest
        \<and> detail_payload (isFirefox pg) d = Inr y \<longrightarrow>
        nexts (browserExtensionMessageReceived pg t0) = [y]"
    by (simp add: defs)
  have 9: "marker_found pg = Some (tm, p, v) \<and> registrations pg = (te, d) # rest
        \<and> detail_payload (isFirefox pg) d = Inr y \<longrightarrow>
        nexts (browserExtensionMessageReceived pg 0) =
          (if tm \<le> te then [\<lparr>platform = p, version = v\<rparr>, y] else [y, \<lparr>platform = p, version = v\<rparr>])
      \<and> (max tm te < t0 \<longrightarrow>
           nexts (browserExtensionMessageReceived pg t0) =
             [if tm \<le> te then y else \<lparr>platform = p, version = v\<rparr>])"
    by (simp add: defs)
  have 10: "registrations pg = (te, d) # rest \<and> detail_payload (isFirefox pg) d = Inl e \<longrightarrow>
        terminal (browserExtensionMessageReceived pg t0) = Some (Error e)
      \<and> nexts (browserExtensionMessageReceived pg t0) =
          (case marker_found pg of
             None \<Rightarrow> []
           | Some (tm, p, v) \<Rightarrow> if tm \<le> te then [\<lparr>platform = p, version = v\<rparr>] else [])"
    by (auto simp add: defs split: option.splits)
  from 1 2 3 4 5 6 7 8 9 10 show ?thesis by blast
qed

lemma both_channels_fields [simp]:
  "marker_found both_channels = Some (100, Some ''chrome-extension'', Some ''23.1.0'')"
  "registrations both_channels = [(150, Detail (Some ''chrome-extension'') (Some ''23.1.1''))]"
  "isFirefox both_channels = False"
  by (simp_all add: both_channels_def marker_found_def)

lemma denied_page_fields [simp]:
  "marker_found denied_page = Some (100, Some ''chrome-extension'', Some ''23.1.0'')"
  "registrations denied_page = [(50, Denied ''Permission denied'')]"
  "isFirefox denied_page = False"
  by (simp_all add: denied_page_def marker_found_def)

theorem presence_stream_witness:
  "marker_found both_channels = Some (100, Some ''chrome-extension'', Some ''23.1.0'')
   \<and> registrations both_channels = [(150, Detail (Some ''chrome-extension'') (Some ''23.1.1''))]
   \<and> detail_payload (isFirefox both_channels) (Detail (Some ''chrome-extension'') (Some ''23.1.1''))
       = Inr sample_event
   \<and> max (100 :: nat) 150 < 1000
   \<and> nexts (browserExtensionMessageReceived both_channels 0) = [sample_marker, sample_event]
   \<and> nexts (browserExtensionMessageReceived both_channels 1000) = [sample_event]
   \<and> registrations denied_page = [(50, Denied ''Permission denied'')]
   \<and> detail_payload (isFirefox denied_page) (Denied ''Permission denied'') = Inl (JsError ''Permission denied'')
   \<and> terminal (browserExtensionMessageReceived denied_page 1000) = Some (Error (JsError ''Permission denied''))
   \<and> nexts (browserExtensionMessageReceived denied_page 1000) = []"
proof -
  have h: "marker_found both_channels = Some (100, Some ''chrome-extension'', Some ''23.1.0'')"
    "registrations both_channels = [(150, Detail (Some ''chrome-extension'') (Some ''23.1.1''))]"
    "detail_payload (isFirefox both_channels) (Detail (Some ''chrome-extension'') (Some ''23.1.1''))
       = Inr sample_event"
    by (simp_all add: detail_payload_def sample_event_def)
  have g: "registrations denied_page = [(50, Denied ''Permission denied'')]"
    "detail_payload (isFirefox denied_page) (Denied ''Permission denied'') = Inl (JsError ''Permission denied'')"
    by (simp_all add: detail_payload_def)
  note t = presence_stream [of both_channels 1000 100 "Some ''chrome-extension''" "Some ''23.1.0''"
      150 "Detail (Some ''chrome-extension'') (Some ''23.1.1'')" "[]" sample_event]
  from t h have "nexts (browserExtensionMessageReceived both_channels 0) =
          (if (100 :: nat) \<le> 150
           then [\<lparr>platform = Some ''chrome-extension'', version = Some ''23.1.0''\<rparr>, sample_event]
           else [sample_event, \<lparr>platform = Some ''chrome-extension'', version = Some ''23.1.0''\<rparr>])
      \<and> (max (100 :: nat) 150 < 1000 \<longrightarrow>
           nexts (browserExtensionMessageReceived both_channels 1000) =
             [if (100 :: nat) \<le> 150 then sample_event
              else \<lparr>platform = Some ''chrome-extension'', version = Some ''23.1.0''\<rparr>])"
    by blast
  then have 1: "nexts (browserExtensionMessageReceived both_channels 0) = [sample_marker, sample_event]
      \<and> nexts (browserExtensionMessageReceived both_channels 1000) = [sample_event]"
    by (simp add: sample_marker_def)
  note u = presence_stream [of denied_page 1000 _ _ _ 50 "Denied ''Permission denied''" "[]" _
      "JsError ''Permission denied''"]
  from u g have "terminal (browserExtensionMessageReceived denied_page 1000) =
        Some (Error (JsError ''Permission denied''))
      \<and> nexts (browserExtensionMessageReceived denied_page 1000) =
          (case marker_found denied_page of
             None \<Rightarrow> []
           | Some (tm, p, v) \<Rightarrow> if tm \<le> 50 then [\<lparr>platform = p, version = v\<rparr>] else [])"
    by blast
  then have 2: "terminal (browserExtensionMessageReceived denied_page 1000) =
        Some (Error (JsError ''Permission denied''))
      \<and> nexts (browserExtensionMessageReceived denied_page 1000) = []"
    by simp
  from 1 2 h g show ?thesis by simp
qed

text \<open>
  The claim as first stated has the channel that resolves first win and every
  subscriber observe its payload exactly once. On a page where both channels resolve,
  a subscriber from the start observes two payloads, a subscriber that comes later
  observes the payload of the channel that resolved second, and the constructor's
  callback logs the connection twice.
\<close>

theorem second_channel_not_disregarded:
  "nexts (browserExtensionMessageReceived both_channels 0) = [sample_marker, sample_event]
   \<and> nexts (browserExtensionMessageReceived both_channels 1000) = [sample_event]
   \<and> sample_marker \<noteq> sample_event
   \<and> filter is_forward
        (trace (fold presence_subscriber (nexts (browserExtensionMessageReceived both_channels 0))
                  (visitor False True []))) =
       [TrackAction ''BrowserExtensionConnectedToServer''
          (Some [(''platform'', Some ''chrome-extension''), (''version'', Some ''23.1.0'')])
          (Some [(''platform'', Some ''chrome-extension''), (''version'', Some ''23.1.0'')]),
        TrackAction ''BrowserExtensionConnectedToServer''
          (Some [(''platform'', Some ''chrome-extension''), (''version'', Some ''23.1.1'')])
          (Some [(''platform'', Some ''chrome-extension''), (''version'', Some ''23.1.1'')])]"
proof -
  have 1: "nexts (browserExtensionMessageReceived both_channels 0) = [sample_marker, sample_event]"
    "nexts (browserExtensionMessageReceived both_channels 1000) = [sample_event]"
    "sample_marker \<noteq> sample_event"
    by (simp_all add: stream_eq channels_eq merge_def publishReplay_1_refCount_def detail_payload_def
        sample_marker_def sample_event_def)
  have 2: "filter is_forward
        (trace (fold presence_subscriber [sample_marker, sample_event] (visitor False True []))) =
       [TrackAction ''BrowserExtensionConnectedToServer''
          (Some [(''platform'', Some ''chrome-extension''), (''version'', Some ''23.1.0'')])
          (Some [(''platform'', Some ''chrome-extension''), (''version'', Some ''23.1.0'')]),
        TrackAction ''BrowserExtensionConnectedToServer''
          (Some [(''platform'', Some ''chrome-extension''), (''version'', Some ''23.1.1'')])
          (Some [(''platform'', Some ''chrome-extension''), (''version'', Some ''23.1.1'')])]"
    by (simp add: forward_presence_subscriber sample_marker_def sample_event_def)
  from 1 2 show ?thesis by simp
qed

end
